theory Spec2Isabelle
  imports Complex_Main "HOL-Library.Multiset"
begin

section \<open>Values of the analysis program (app.py)\<close>

text \<open>
  The program is a Python script over pandas data frames. Its floating-point numbers are
  modelled by the real numbers they denote, together with the two infinities and NaN as
  separate values: comparisons of floats are exact, so they agree with the comparisons of
  the reals; rounding of arithmetic results and the sign of zero are not modelled.
  A cell of a frame can also hold Python's \<open>None\<close> (a column assigned \<open>None\<close> is
  an object column of \<open>None\<close>s). \<open>Dup\<close> is never stored: it is what reading a label
  that occurs twice in a row gives (a Series instead of a scalar).
\<close>

datatype error = IndexError | KeyError | TypeError | ValueError | DataError

datatype cell = Num real | PInf | NInf | NaN | NoneV | Dup

text \<open>The exceptions of Python are the left summand; \<open>ebind\<close> runs the next statement.\<close>

definition ebind :: "error + 'a \<Rightarrow> ('a \<Rightarrow> error + 'b) \<Rightarrow> error + 'b" where
  "ebind m f = (case m of Inl e \<Rightarrow> Inl e | Inr x \<Rightarrow> f x)"

text \<open>Comparison of two floats: anything compared with NaN is false.\<close>

fun cell_lt :: "cell \<Rightarrow> cell \<Rightarrow> bool" where
  "cell_lt (Num x) (Num y) = (x < y)"
| "cell_lt (Num x) PInf = True"
| "cell_lt NInf (Num y) = True"
| "cell_lt NInf PInf = True"
| "cell_lt _ _ = False"

fun cell_le :: "cell \<Rightarrow> cell \<Rightarrow> bool" where
  "cell_le (Num x) (Num y) = (x \<le> y)"
| "cell_le (Num x) PInf = True"
| "cell_le NInf (Num y) = True"
| "cell_le NInf PInf = True"
| "cell_le NInf NInf = True"
| "cell_le PInf PInf = True"
| "cell_le _ _ = False"

text \<open>
  The comparison operators as the conditions of the program use them: an operand
  \<open>None\<close> raises TypeError; an operand that is a Series makes the condition's truth
  value ambiguous, which raises ValueError.
\<close>

definition py_cmp :: "(cell \<Rightarrow> cell \<Rightarrow> bool) \<Rightarrow> cell \<Rightarrow> cell \<Rightarrow> error + bool" where
  "py_cmp rel a b =
     (if a = NoneV \<or> b = NoneV then Inl TypeError
      else if a = Dup \<or> b = Dup then Inl ValueError
      else Inr (rel a b))"

definition py_lt :: "cell \<Rightarrow> cell \<Rightarrow> error + bool" where
  "py_lt a b = py_cmp cell_lt a b"

definition py_gt :: "cell \<Rightarrow> cell \<Rightarrow> error + bool" where
  "py_gt a b = py_cmp (\<lambda>x y. cell_lt y x) a b"

definition py_le :: "cell \<Rightarrow> cell \<Rightarrow> error + bool" where
  "py_le a b = py_cmp cell_le a b"

text \<open>\<open>a and b\<close>: the right operand is evaluated only when the left one is true.\<close>

definition py_and :: "error + bool \<Rightarrow> error + bool \<Rightarrow> error + bool" where
  "py_and a b = (case a of Inl e \<Rightarrow> Inl e | Inr t \<Rightarrow> (if t then b else Inr False))"

text \<open>A cell that holds a float: a number, an infinity or NaN.\<close>

definition is_float :: "cell \<Rightarrow> bool" where
  "is_float a = (a \<noteq> NoneV \<and> a \<noteq> Dup)"

section \<open>The composite score and the recommendation (module top level, lines 187-226)\<close>

text \<open>
  \<open>total_score = (tech_score * 0.5) + (sm_score * 0.3) + (sent_score + 50) * 0.2\<close>,
  where the two scores of the scorers are Python integers and the sentiment score a float.
\<close>

definition total_score :: "int \<Rightarrow> int \<Rightarrow> real \<Rightarrow> real" where
  "total_score tech_score sm_score sent_score =
     (real_of_int tech_score * 0.5) + (real_of_int sm_score * 0.3) + (sent_score + 50) * 0.2"

text \<open>
  The three boxes of the recommendation column: \<open>st.success\<close> (strong buy),
  \<open>st.warning\<close> (neutral, wait) and \<open>st.error\<close> (sell, avoid).
\<close>

datatype tier = StrongBuy | Neutral | Avoid

definition recommendation :: "real \<Rightarrow> tier" where
  "recommendation tot =
     (if tot \<ge> 70 then StrongBuy else if tot \<ge> 50 then Neutral else Avoid)"

text \<open>\<open>current_price * 0.98\<close> on a cell read from the Close column.\<close>

fun cell_scale :: "cell \<Rightarrow> real \<Rightarrow> error + cell" where
  "cell_scale (Num x) k = Inr (Num (x * k))"
| "cell_scale PInf k = Inr (if 0 < k then PInf else if k < 0 then NInf else NaN)"
| "cell_scale NInf k = Inr (if 0 < k then NInf else if k < 0 then PInf else NaN)"
| "cell_scale NaN k = Inr NaN"
| "cell_scale NoneV k = Inl TypeError"
| "cell_scale Dup k = Inl TypeError"

text \<open>The strategy line is written only \<open>if total_score >= 60\<close>.\<close>

definition buy_zone :: "real \<Rightarrow> cell \<Rightarrow> error + cell option" where
  "buy_zone tot current_price =
     (if tot \<ge> 60 then ebind (cell_scale current_price 0.98) (\<lambda>z. Inr (Some z))
      else Inr None)"

section \<open>Series and data frames\<close>

text \<open>
  A pandas Series is the list of its cells, a DataFrame the length of its index and its
  columns in order, each a label and a Series. The frames the program works on come from
  the market-data provider with distinct labels; a column short of the index reads as NaN
  where it has no cell.
\<close>

type_synonym series = "cell list"

type_synonym row = "(string \<times> cell) list"

record dataframe =
  n_index :: nat
  cols :: "(string \<times> series) list"

definition columns :: "dataframe \<Rightarrow> string list" where
  "columns df = map fst (cols df)"

text \<open>\<open>df[c]\<close> as an expression: KeyError when no column has the label.\<close>

definition df_get :: "dataframe \<Rightarrow> string \<Rightarrow> error + series" where
  "df_get df c = (case map_of (cols df) c of None \<Rightarrow> Inl KeyError | Some s \<Rightarrow> Inr s)"

text \<open>
  \<open>df[c] = v\<close> changes the frame object in place: an existing column keeps its place
  and gets the new cells, a new label is appended. Assigning \<open>None\<close> (what the
  indicator library returns when it declines a series) fills the column with \<open>None\<close>.
\<close>

fun assign :: "(string \<times> series) list \<Rightarrow> string \<Rightarrow> series \<Rightarrow> (string \<times> series) list" where
  "assign [] c s = [(c, s)]"
| "assign ((k, t) # kts) c s = (if k = c then (c, s) # kts else (k, t) # assign kts c s)"

definition set_col :: "dataframe \<Rightarrow> string \<Rightarrow> series option \<Rightarrow> dataframe" where
  "set_col df c v =
     df\<lparr>cols := assign (cols df) c
       (case v of None \<Rightarrow> replicate (n_index df) NoneV | Some s \<Rightarrow> s)\<rparr>"

text \<open>
  \<open>pd.concat([df, extra], axis=1)\<close> builds a new frame, the columns of \<open>extra\<close>
  after those of \<open>df\<close>; an \<open>extra\<close> that is \<open>None\<close> is dropped.
\<close>

definition pd_concat :: "dataframe \<Rightarrow> (string \<times> series) list option \<Rightarrow> dataframe" where
  "pd_concat df extra = (case extra of None \<Rightarrow> df | Some f \<Rightarrow> df\<lparr>cols := cols df @ f\<rparr>)"

definition cell_at :: "series \<Rightarrow> nat \<Rightarrow> cell" where
  "cell_at s i = (if i < length s then s ! i else NaN)"

text \<open>\<open>df.iloc[-k]\<close> for \<open>k = 1, 2\<close>: the k-th row from the end, IndexError when there is none.\<close>

definition iloc_neg :: "dataframe \<Rightarrow> nat \<Rightarrow> error + row" where
  "iloc_neg df k =
     (if k = 0 \<or> n_index df < k then Inl IndexError
      else Inr (map (\<lambda>(c, s). (c, cell_at s (n_index df - k))) (cols df)))"

text \<open>\<open>series.iloc[-k]\<close> on one column.\<close>

definition series_iloc_neg :: "series \<Rightarrow> nat \<Rightarrow> error + cell" where
  "series_iloc_neg s k =
     (if k = 0 \<or> length s < k then Inl IndexError else Inr (s ! (length s - k)))"

text \<open>\<open>row[c]\<close>: KeyError for a missing label, a Series for a label that occurs twice.\<close>

definition row_get :: "row \<Rightarrow> string \<Rightarrow> error + cell" where
  "row_get r c =
     (case filter (\<lambda>kv. fst kv = c) r of
        [] \<Rightarrow> Inl KeyError
      | [kv] \<Rightarrow> Inr (snd kv)
      | _ \<Rightarrow> Inr Dup)"

text \<open>
  \<open>series.rolling(w).mean()\<close>: NaN until the window is full and wherever the window
  holds a cell that is not a finite number; an object column has no numeric type to
  aggregate.
\<close>

fun is_num :: "cell \<Rightarrow> bool" where
  "is_num (Num x) = True"
| "is_num _ = False"

fun num_of :: "cell \<Rightarrow> real" where
  "num_of (Num x) = x"
| "num_of _ = 0"

definition window_mean :: "nat \<Rightarrow> series \<Rightarrow> cell" where
  "window_mean w ys =
     (if w = 0 \<or> length ys < w then NaN
      else (let win = drop (length ys - w) ys
            in if list_all is_num win then Num (sum_list (map num_of win) / real w) else NaN))"

definition rolling_mean :: "nat \<Rightarrow> series \<Rightarrow> error + series" where
  "rolling_mean w s =
     (if NoneV \<in> set s then Inl DataError
      else Inr (map (\<lambda>i. window_mean w (take (Suc i) s)) [0..<length s]))"

text \<open>Float division as numpy does it: a zero divisor gives an infinity or NaN, no exception.\<close>

fun cell_div :: "cell \<Rightarrow> cell \<Rightarrow> cell" where
  "cell_div (Num x) (Num y) =
     (if y \<noteq> 0 then Num (x / y) else if x = 0 then NaN else if 0 < x then PInf else NInf)"
| "cell_div (Num x) PInf = Num 0"
| "cell_div (Num x) NInf = Num 0"
| "cell_div PInf (Num y) = (if 0 \<le> y then PInf else NInf)"
| "cell_div NInf (Num y) = (if 0 \<le> y then NInf else PInf)"
| "cell_div _ _ = NaN"

definition series_div :: "series \<Rightarrow> series \<Rightarrow> error + series" where
  "series_div a b =
     (if NoneV \<in> set a \<or> NoneV \<in> set b then Inl TypeError else Inr (map2 cell_div a b))"

text \<open>
  \<open>series.tail(n)\<close>, and \<open>max()\<close> and \<open>min()\<close> of a Series, which skip missing
  cells and give NaN when nothing is left.
\<close>

definition tail_n :: "nat \<Rightarrow> 'a list \<Rightarrow> 'a list" where
  "tail_n n xs = drop (length xs - n) xs"

fun notna :: "cell \<Rightarrow> bool" where
  "notna NaN = False"
| "notna NoneV = False"
| "notna _ = True"

definition cell_max :: "cell \<Rightarrow> cell \<Rightarrow> cell" where
  "cell_max a b = (if cell_lt a b then b else a)"

definition cell_min :: "cell \<Rightarrow> cell \<Rightarrow> cell" where
  "cell_min a b = (if cell_lt b a then b else a)"

definition series_max :: "series \<Rightarrow> cell" where
  "series_max s = (case filter notna s of [] \<Rightarrow> NaN | x # xs \<Rightarrow> fold cell_max xs x)"

definition series_min :: "series \<Rightarrow> cell" where
  "series_min s = (case filter notna s of [] \<Rightarrow> NaN | x # xs \<Rightarrow> fold cell_min xs x)"

section \<open>The indicator library\<close>

text \<open>
  The indicator functions of pandas_ta are not part of the program: they are a parameter
  of the model. Each takes the Series the program passes and returns a Series (for
  \<open>macd\<close> and \<open>bbands\<close> a frame's columns) over the same index, or \<open>None\<close>.
\<close>

record ta_lib =
  ta_sma :: "series \<Rightarrow> nat \<Rightarrow> series option"
  ta_rsi :: "series \<Rightarrow> nat \<Rightarrow> series option"
  ta_macd :: "series \<Rightarrow> (string \<times> series) list option"
  ta_bbands :: "series \<Rightarrow> nat \<Rightarrow> (string \<times> series) list option"
  ta_obv :: "series \<Rightarrow> series \<Rightarrow> series option"
  ta_ema :: "series \<Rightarrow> nat \<Rightarrow> series option"
  ta_mfi :: "series \<Rightarrow> series \<Rightarrow> series \<Rightarrow> series \<Rightarrow> nat \<Rightarrow> series option"

text \<open>
  The rationale strings of the program are not ASCII; each is named by the rule that
  appends it, in the order of the source.
\<close>

datatype reason =
    PriceAboveLongSMA | RSIOversold | RSIOverbought | MACDGoldenCross | BelowLowerBollinger
  | VolumeSpikeUp | VolumeSpikeDown | OBVAboveEMA | MFIOverheated | MFIOversold

section \<open>The sentiment of the news (analyze_sentiment, lines 34-69)\<close>

text \<open>
  A news item is a dictionary; \<open>news.get(k, d)\<close> reads it with a default. The polarity
  of a title (TextBlob, between -1 and 1) is a parameter. A news list that is \<open>None\<close>
  is falsy like the empty list.
\<close>

type_synonym news = "string \<rightharpoonup> string"

definition dict_get :: "news \<Rightarrow> string \<Rightarrow> string \<Rightarrow> string" where
  "dict_get d k dflt = (case d k of None \<Rightarrow> dflt | Some v \<Rightarrow> v)"

datatype sentiment_label = LabelNeutral | LabelPositive | LabelNegative

record analyzed =
  a_title :: string
  a_link :: string
  a_publisher :: string
  a_sentiment :: sentiment_label
  a_score :: real

definition analyze_one :: "(string \<Rightarrow> real) \<Rightarrow> news \<Rightarrow> analyzed" where
  "analyze_one polarity_of n =
     (let title = dict_get n ''title'' [];
          link = dict_get n ''link'' ''#'';
          publisher = dict_get n ''publisher'' ''Unknown'';
          polarity = polarity_of title
      in \<lparr>a_title = title, a_link = link, a_publisher = publisher,
          a_sentiment = (if polarity > 0.1 then LabelPositive
                         else if polarity < - 0.1 then LabelNegative else LabelNeutral),
          a_score = polarity\<rparr>)"

text \<open>The loop over \<open>news_list[:5]\<close>, with the running sum and the list built so far.\<close>

fun sentiment_loop ::
  "(string \<Rightarrow> real) \<Rightarrow> news list \<Rightarrow> real \<times> analyzed list \<Rightarrow> real \<times> analyzed list" where
  "sentiment_loop polarity_of [] acc = acc"
| "sentiment_loop polarity_of (n # ns) (sentiment_score, analyzed_news) =
     sentiment_loop polarity_of ns
       (sentiment_score + a_score (analyze_one polarity_of n),
        analyzed_news @ [analyze_one polarity_of n])"

definition analyze_sentiment :: "(string \<Rightarrow> real) \<Rightarrow> news list \<Rightarrow> real \<times> analyzed list" where
  "analyze_sentiment polarity_of news_list =
     (if news_list = [] then (0, [])
      else (let (sentiment_score, analyzed_news) =
                  sentiment_loop polarity_of (take 5 news_list) (0, []);
                count = length (take 5 news_list)
            in if count = 0 then (0, [])
               else ((sentiment_score / real count) * 100, analyzed_news)))"

section \<open>The smart-money scorer (calculate_smart_money, lines 71-109)\<close>

text \<open>
  Lines 74-82: the indicator columns are assigned to the frame that was passed in.
  The result is that frame object after the assignments.
\<close>

definition smart_money_indicators :: "ta_lib \<Rightarrow> dataframe \<Rightarrow> error + dataframe" where
  "smart_money_indicators ta df0 =
     ebind (df_get df0 ''Volume'') (\<lambda>volume0.
     ebind (rolling_mean 50 volume0) (\<lambda>vol_sma.
     let df1 = set_col df0 ''Vol_SMA'' (Some vol_sma) in
     ebind (df_get df1 ''Volume'') (\<lambda>volume1.
     ebind (df_get df1 ''Vol_SMA'') (\<lambda>vol_sma1.
     ebind (series_div volume1 vol_sma1) (\<lambda>rvol.
     let df2 = set_col df1 ''RVOL'' (Some rvol) in
     ebind (df_get df2 ''Close'') (\<lambda>close2.
     ebind (df_get df2 ''Volume'') (\<lambda>volume2.
     let df3 = set_col df2 ''OBV'' (ta_obv ta close2 volume2) in
     ebind (df_get df3 ''OBV'') (\<lambda>obv3.
     let df4 = set_col df3 ''OBV_EMA'' (ta_ema ta obv3 20) in
     ebind (df_get df4 ''High'') (\<lambda>high4.
     ebind (df_get df4 ''Low'') (\<lambda>low4.
     ebind (df_get df4 ''Close'') (\<lambda>close4.
     ebind (df_get df4 ''Volume'') (\<lambda>volume4.
     Inr (set_col df4 ''MFI'' (ta_mfi ta high4 low4 close4 volume4 14))))))))))))))"

text \<open>Lines 91-96: the volume spike, on an up-close or else on a down-close.\<close>

definition rule_volume :: "row \<Rightarrow> int \<times> reason list \<Rightarrow> error + (int \<times> reason list)" where
  "rule_volume latest st =
     ebind (py_and (ebind (row_get latest ''RVOL'') (\<lambda>rvol. py_gt rvol (Num 1.5)))
                   (ebind (row_get latest ''Close'') (\<lambda>c.
                    ebind (row_get latest ''Open'') (\<lambda>opn. py_gt c opn)))) (\<lambda>up.
     if up then Inr (fst st + 15, snd st @ [VolumeSpikeUp])
     else
       ebind (py_and (ebind (row_get latest ''RVOL'') (\<lambda>rvol. py_gt rvol (Num 1.5)))
                     (ebind (row_get latest ''Close'') (\<lambda>c.
                      ebind (row_get latest ''Open'') (\<lambda>opn. py_lt c opn)))) (\<lambda>down.
       Inr (if down then (fst st - 15, snd st @ [VolumeSpikeDown]) else st)))"

text \<open>Lines 98-100.\<close>

definition rule_obv :: "row \<Rightarrow> int \<times> reason list \<Rightarrow> error + (int \<times> reason list)" where
  "rule_obv latest st =
     ebind (row_get latest ''OBV'') (\<lambda>obv.
     ebind (row_get latest ''OBV_EMA'') (\<lambda>obv_ema.
     ebind (py_gt obv obv_ema) (\<lambda>above.
     Inr (if above then (fst st + 10, snd st @ [OBVAboveEMA]) else st))))"

text \<open>Lines 102-107.\<close>

definition rule_mfi :: "row \<Rightarrow> int \<times> reason list \<Rightarrow> error + (int \<times> reason list)" where
  "rule_mfi latest st =
     ebind (row_get latest ''MFI'') (\<lambda>mfi.
     ebind (py_gt mfi (Num 80)) (\<lambda>hot.
     if hot then Inr (fst st - 10, snd st @ [MFIOverheated])
     else
       ebind (row_get latest ''MFI'') (\<lambda>mfi2.
       ebind (py_lt mfi2 (Num 20)) (\<lambda>cold.
       Inr (if cold then (fst st + 10, snd st @ [MFIOversold]) else st)))))"

text \<open>Lines 87-109 on the latest row: base score 50, the three rules, the clamp.\<close>

definition smart_money_score :: "row \<Rightarrow> error + (int \<times> reason list)" where
  "smart_money_score latest =
     ebind (rule_volume latest (50, [])) (\<lambda>st1.
     ebind (rule_obv latest st1) (\<lambda>st2.
     ebind (rule_mfi latest st2) (\<lambda>st3.
     Inr (max 0 (min 100 (fst st3)), snd st3))))"

text \<open>
  The whole function: the value returned, and the frame of the caller after the call.
\<close>

definition calculate_smart_money ::
  "ta_lib \<Rightarrow> dataframe \<Rightarrow> error + ((int \<times> reason list) \<times> dataframe)" where
  "calculate_smart_money ta df0 =
     ebind (smart_money_indicators ta df0) (\<lambda>df.
     ebind (iloc_neg df 1) (\<lambda>latest.
     ebind (smart_money_score latest) (\<lambda>res. Inr (res, df))))"

section \<open>The technical scorer (calculate_technical_strategy, lines 111-162)\<close>

text \<open>
  Lines 114-125. The three assignments change the frame that was passed in;
  \<open>df = pd.concat(...)\<close> then binds the local name to a new frame, so the MACD and
  Bollinger columns are in the new frame only. The result is the pair of the caller's
  frame after the call and the new frame. The two window lengths are the sliders of the
  sidebar (module globals).
\<close>

definition technical_indicators ::
  "ta_lib \<Rightarrow> nat \<Rightarrow> nat \<Rightarrow> dataframe \<Rightarrow> error + (dataframe \<times> dataframe)" where
  "technical_indicators ta ma_window_short ma_window_long df0 =
     ebind (df_get df0 ''Close'') (\<lambda>close0.
     let df1 = set_col df0 ''SMA_Short'' (ta_sma ta close0 ma_window_short) in
     ebind (df_get df1 ''Close'') (\<lambda>close1.
     let df2 = set_col df1 ''SMA_Long'' (ta_sma ta close1 ma_window_long) in
     ebind (df_get df2 ''Close'') (\<lambda>close2.
     let df3 = set_col df2 ''RSI'' (ta_rsi ta close2 14) in
     ebind (df_get df3 ''Close'') (\<lambda>close3.
     let df4 = pd_concat df3 (ta_macd ta close3) in
     ebind (df_get df4 ''Close'') (\<lambda>close4.
     let df5 = pd_concat df4 (ta_bbands ta close4 20) in
     Inr (df3, df5))))))"

text \<open>A. Lines 134-136: the trend.\<close>

definition rule_trend :: "row \<Rightarrow> int \<times> reason list \<Rightarrow> error + (int \<times> reason list)" where
  "rule_trend latest st =
     ebind (row_get latest ''SMA_Long'') (\<lambda>sma_long.
     ebind (py_and (Inr (sma_long \<noteq> NoneV))
                   (ebind (row_get latest ''Close'') (\<lambda>c.
                    ebind (row_get latest ''SMA_Long'') (\<lambda>sma. py_gt c sma)))) (\<lambda>above.
     Inr (if above then (fst st + 10, snd st @ [PriceAboveLongSMA]) else st)))"

text \<open>B. Lines 139-144: RSI.\<close>

definition rule_rsi :: "row \<Rightarrow> int \<times> reason list \<Rightarrow> error + (int \<times> reason list)" where
  "rule_rsi latest st =
     ebind (row_get latest ''RSI'') (\<lambda>rsi.
     ebind (py_lt rsi (Num 30)) (\<lambda>oversold.
     if oversold then Inr (fst st + 20, snd st @ [RSIOversold])
     else
       ebind (row_get latest ''RSI'') (\<lambda>rsi2.
       ebind (py_gt rsi2 (Num 70)) (\<lambda>overbought.
       Inr (if overbought then (fst st - 20, snd st @ [RSIOverbought]) else st)))))"

text \<open>C. Lines 147-155: the MACD golden cross, when the frame has the MACD column.\<close>

definition rule_macd ::
  "string list \<Rightarrow> row \<Rightarrow> row \<Rightarrow> int \<times> reason list \<Rightarrow> error + (int \<times> reason list)" where
  "rule_macd df_columns latest prev st =
     (if ''MACD_12_26_9'' \<in> set df_columns then
        ebind (row_get latest ''MACD_12_26_9'') (\<lambda>macd_line.
        ebind (row_get latest ''MACDs_12_26_9'') (\<lambda>macd_signal.
        ebind (row_get prev ''MACD_12_26_9'') (\<lambda>prev_macd_line.
        ebind (row_get prev ''MACDs_12_26_9'') (\<lambda>prev_macd_signal.
        ebind (py_and (py_gt macd_line macd_signal)
                      (py_le prev_macd_line prev_macd_signal)) (\<lambda>cross.
        Inr (if cross then (fst st + 15, snd st @ [MACDGoldenCross]) else st))))))
      else Inr st)"

text \<open>D. Lines 158-160: the lower Bollinger band, when the frame has the column.\<close>

definition rule_bollinger ::
  "string list \<Rightarrow> row \<Rightarrow> int \<times> reason list \<Rightarrow> error + (int \<times> reason list)" where
  "rule_bollinger df_columns latest st =
     ebind (py_and (Inr (''BBL_20_2.0'' \<in> set df_columns))
                   (ebind (row_get latest ''Close'') (\<lambda>c.
                    ebind (row_get latest ''BBL_20_2.0'') (\<lambda>bbl. py_lt c bbl)))) (\<lambda>below.
     Inr (if below then (fst st + 15, snd st @ [BelowLowerBollinger]) else st))"

text \<open>Lines 130-162 on the latest and the previous row: base score 50, rules A to D, the clamp.\<close>

definition technical_score ::
  "string list \<Rightarrow> row \<Rightarrow> row \<Rightarrow> error + (int \<times> reason list)" where
  "technical_score df_columns latest prev =
     ebind (rule_trend latest (50, [])) (\<lambda>st1.
     ebind (rule_rsi latest st1) (\<lambda>st2.
     ebind (rule_macd df_columns latest prev st2) (\<lambda>st3.
     ebind (rule_bollinger df_columns latest st3) (\<lambda>st4.
     Inr (max 0 (min 100 (fst st4)), snd st4)))))"

text \<open>
  The whole function: the triple returned (score, reasons, the new frame), and the frame
  of the caller after the call.
\<close>

definition calculate_technical_strategy ::
  "ta_lib \<Rightarrow> nat \<Rightarrow> nat \<Rightarrow> dataframe
     \<Rightarrow> error + ((int \<times> reason list \<times> dataframe) \<times> dataframe)" where
  "calculate_technical_strategy ta ma_window_short ma_window_long df0 =
     ebind (technical_indicators ta ma_window_short ma_window_long df0) (\<lambda>(df_arg, df).
     ebind (iloc_neg df 1) (\<lambda>latest.
     ebind (iloc_neg df 2) (\<lambda>prev.
     ebind (technical_score (columns df) latest prev) (\<lambda>(score, reasons).
     Inr ((score, reasons, df), df_arg)))))"

section \<open>The main program (lines 171-226)\<close>

text \<open>
  Lines 216-217: the extremes of the last 20 bars.
\<close>

definition recent_high :: "dataframe \<Rightarrow> error + cell" where
  "recent_high df = ebind (df_get df ''High'') (\<lambda>high. Inr (series_max (tail_n 20 high)))"

definition recent_low :: "dataframe \<Rightarrow> error + cell" where
  "recent_low df = ebind (df_get df ''Low'') (\<lambda>low. Inr (series_min (tail_n 20 low)))"

text \<open>
  What the page shows of the analysis: the scores, the recommendation box with the list
  of reasons under it, the price levels and the strategy line. The charts and the
  percentage change of the price are left out; the subtraction
  \<open>current_price - prev_close\<close> is kept as the TypeError it raises on \<open>None\<close>.
  The name \<open>data\<close> is rebound to the frame the technical scorer returns, and the
  smart-money scorer then works on that frame.
\<close>

record report =
  r_tech_score :: int
  r_sm_score :: int
  r_sent_score :: real
  r_total_score :: real
  r_tier :: tier
  r_rationale :: "reason list"
  r_recent_high :: cell
  r_current_price :: cell
  r_recent_low :: cell
  r_buy_zone :: "cell option"
  r_news :: "analyzed list"

definition analyze ::
  "ta_lib \<Rightarrow> (string \<Rightarrow> real) \<Rightarrow> nat \<Rightarrow> nat \<Rightarrow> dataframe \<Rightarrow> news list \<Rightarrow> error + report" where
  "analyze ta polarity_of ma_window_short ma_window_long data0 news_list =
     ebind (calculate_technical_strategy ta ma_window_short ma_window_long data0)
       (\<lambda>((tech_score, tech_reasons, data1), _).
     ebind (calculate_smart_money ta data1) (\<lambda>((sm_score, sm_signals), data2).
     let (sent_score, analyzed_news) = analyze_sentiment polarity_of news_list in
     ebind (df_get data2 ''Close'') (\<lambda>close_a.
     ebind (series_iloc_neg close_a 1) (\<lambda>current_price.
     ebind (df_get data2 ''Close'') (\<lambda>close_b.
     ebind (series_iloc_neg close_b 2) (\<lambda>prev_close.
     if current_price = NoneV \<or> prev_close = NoneV then Inl TypeError
     else
       let tot = total_score tech_score sm_score sent_score in
       ebind (recent_high data2) (\<lambda>rh.
       ebind (recent_low data2) (\<lambda>rl.
       ebind (buy_zone tot current_price) (\<lambda>bz.
       Inr \<lparr>r_tech_score = tech_score, r_sm_score = sm_score, r_sent_score = sent_score,
            r_total_score = tot, r_tier = recommendation tot,
            r_rationale = tech_reasons @ sm_signals,
            r_recent_high = rh, r_current_price = current_price, r_recent_low = rl,
            r_buy_zone = bz, r_news = analyzed_news\<rparr>)))))))))"

section \<open>Labels the scorers assign, and inputs for the examples\<close>

text \<open>The columns the two scorers assign to the frame they are given.\<close>

definition sm_labels :: "string set" where
  "sm_labels = {''Vol_SMA'', ''RVOL'', ''OBV'', ''OBV_EMA'', ''MFI''}"

definition tech_labels :: "string set" where
  "tech_labels = {''SMA_Short'', ''SMA_Long'', ''RSI''}"

text \<open>
  Fifty bars, the last one on twice the usual volume, and an indicator library that
  answers with fixed numbers at every bar: the close is above the long average and below
  the lower band, RSI is 25, the MACD line crosses its signal on the last bar, OBV is
  above its average and MFI is 10.
\<close>

definition ex_bars50 :: dataframe where
  "ex_bars50 = \<lparr>n_index = 50, cols =
     [(''Open'', replicate 50 (Num 9)), (''High'', replicate 50 (Num 12)),
      (''Low'', replicate 50 (Num 8)), (''Close'', replicate 50 (Num 10)),
      (''Volume'', replicate 49 (Num 100) @ [Num 200])]\<rparr>"

text \<open>The same fifty bars on a steady volume.\<close>

definition ex_bars50_flat :: dataframe where
  "ex_bars50_flat = \<lparr>n_index = 50, cols =
     [(''Open'', replicate 50 (Num 9)), (''High'', replicate 50 (Num 12)),
      (''Low'', replicate 50 (Num 8)), (''Close'', replicate 50 (Num 10)),
      (''Volume'', replicate 50 (Num 100))]\<rparr>"

definition ex_ta :: ta_lib where
  "ex_ta = \<lparr>ta_sma = (\<lambda>s n. Some (map (\<lambda>c. Num 9) s)),
            ta_rsi = (\<lambda>s n. Some (map (\<lambda>c. Num 25) s)),
            ta_macd = (\<lambda>s. Some [(''MACD_12_26_9'', map (\<lambda>c. Num 0) (butlast s) @ [Num 1]),
                                  (''MACDh_12_26_9'', map (\<lambda>c. Num 0) (butlast s) @ [Num 1]),
                                  (''MACDs_12_26_9'', map (\<lambda>c. Num 0) s)]),
            ta_bbands = (\<lambda>s n. Some [(''BBL_20_2.0'', map (\<lambda>c. Num 11) s),
                                      (''BBM_20_2.0'', map (\<lambda>c. Num 12) s),
                                      (''BBU_20_2.0'', map (\<lambda>c. Num 13) s)]),
            ta_obv = (\<lambda>c v. Some (map (\<lambda>c. Num 300) v)),
            ta_ema = (\<lambda>s n. Some (map (\<lambda>c. Num 200) s)),
            ta_mfi = (\<lambda>h l c v n. Some (map (\<lambda>c. Num 10) v))\<rparr>"

text \<open>
  Fourteen bars, fewer than every window but that of RSI, and a library that declines
  the averages, MACD and the bands on so short a series (\<open>None\<close>) and gives an RSI that
  is not yet defined (NaN).
\<close>

definition ex_bars14 :: dataframe where
  "ex_bars14 = \<lparr>n_index = 14, cols =
     [(''Open'', replicate 14 (Num 9)), (''High'', replicate 14 (Num 12)),
      (''Low'', replicate 14 (Num 8)), (''Close'', replicate 14 (Num 10)),
      (''Volume'', replicate 14 (Num 100))]\<rparr>"

definition ta_short :: ta_lib where
  "ta_short = \<lparr>ta_sma = (\<lambda>s n. None),
               ta_rsi = (\<lambda>s n. Some (map (\<lambda>c. NaN) s)),
               ta_macd = (\<lambda>s. None),
               ta_bbands = (\<lambda>s n. None),
               ta_obv = (\<lambda>c v. Some (map (\<lambda>c. Num 0) v)),
               ta_ema = (\<lambda>s n. None),
               ta_mfi = (\<lambda>h l c v n. Some (map (\<lambda>c. NaN) v))\<rparr>"

text \<open>Two bars, and a library whose every value is NaN.\<close>

definition ex_bars2 :: dataframe where
  "ex_bars2 = \<lparr>n_index = 2, cols =
     [(''Open'', [Num 9, Num 9]), (''High'', [Num 12, Num 12]),
      (''Low'', [Num 8, Num 8]), (''Close'', [Num 10, Num 10]),
      (''Volume'', [Num 100, Num 100])]\<rparr>"

text \<open>One bar, and no bar at all.\<close>

definition ex_bars1 :: dataframe where
  "ex_bars1 = \<lparr>n_index = 1, cols =
     [(''Open'', [Num 9]), (''High'', [Num 12]), (''Low'', [Num 8]), (''Close'', [Num 10]),
      (''Volume'', [Num 100])]\<rparr>"

definition ex_bars0 :: dataframe where
  "ex_bars0 = \<lparr>n_index = 0, cols =
     [(''Open'', []), (''High'', []), (''Low'', []), (''Close'', []), (''Volume'', [])]\<rparr>"

definition ta_nan :: ta_lib where
  "ta_nan = \<lparr>ta_sma = (\<lambda>s n. Some (map (\<lambda>c. NaN) s)),
             ta_rsi = (\<lambda>s n. Some (map (\<lambda>c. NaN) s)),
             ta_macd = (\<lambda>s. Some [(''MACD_12_26_9'', map (\<lambda>c. NaN) s),
                                   (''MACDh_12_26_9'', map (\<lambda>c. NaN) s),
                                   (''MACDs_12_26_9'', map (\<lambda>c. NaN) s)]),
             ta_bbands = (\<lambda>s n. Some [(''BBL_20_2.0'', map (\<lambda>c. NaN) s),
                                       (''BBM_20_2.0'', map (\<lambda>c. NaN) s),
                                       (''BBU_20_2.0'', map (\<lambda>c. NaN) s)]),
             ta_obv = (\<lambda>c v. Some (map (\<lambda>c. NaN) v)),
             ta_ema = (\<lambda>s n. Some (map (\<lambda>c. NaN) s)),
             ta_mfi = (\<lambda>h l c v n. Some (map (\<lambda>c. NaN) v))\<rparr>"

text \<open>
  The frames of these examples after the scorers have run: the fourteen bars after the
  technical scorer with the short-history library, and the two bars after the smart-money
  and the technical scorer with the all-NaN library (the frame passed in, and the new
  frame the technical scorer returns).
\<close>

definition ex_bars14_tech :: dataframe where
  "ex_bars14_tech = \<lparr>n_index = 14, cols = cols ex_bars14 @
     [(''SMA_Short'', replicate 14 NoneV), (''SMA_Long'', replicate 14 NoneV),
      (''RSI'', replicate 14 NaN)]\<rparr>"

definition ex_bars2_sm :: dataframe where
  "ex_bars2_sm = \<lparr>n_index = 2, cols = cols ex_bars2 @
     [(''Vol_SMA'', [NaN, NaN]), (''RVOL'', [NaN, NaN]), (''OBV'', [NaN, NaN]),
      (''OBV_EMA'', [NaN, NaN]), (''MFI'', [NaN, NaN])]\<rparr>"

definition ex_bars2_tech :: dataframe where
  "ex_bars2_tech = \<lparr>n_index = 2, cols = cols ex_bars2 @
     [(''SMA_Short'', [NaN, NaN]), (''SMA_Long'', [NaN, NaN]), (''RSI'', [NaN, NaN])]\<rparr>"

definition ex_bars2_tech_new :: dataframe where
  "ex_bars2_tech_new = \<lparr>n_index = 2, cols = cols ex_bars2_tech @
     [(''MACD_12_26_9'', [NaN, NaN]), (''MACDh_12_26_9'', [NaN, NaN]),
      (''MACDs_12_26_9'', [NaN, NaN]), (''BBL_20_2.0'', [NaN, NaN]),
      (''BBM_20_2.0'', [NaN, NaN]), (''BBU_20_2.0'', [NaN, NaN])]\<rparr>"

text \<open>
  The two bars with two columns left over from an earlier run, RSI and MFI, both 99.
\<close>

definition ex_bars2_stale :: dataframe where
  "ex_bars2_stale = \<lparr>n_index = 2, cols = cols ex_bars2 @
     [(''RSI'', [Num 99, Num 99]), (''MFI'', [Num 99, Num 99])]\<rparr>"

text \<open>The five bars of the levels example, and three headlines with their polarities.\<close>

definition ex_bars5 :: dataframe where
  "ex_bars5 = \<lparr>n_index = 5, cols =
     [(''High'', [Num 10, Num 12, Num 9, Num 15, Num 11]),
      (''Low'', [Num 8, Num 9, Num 7, Num 10, Num 9])]\<rparr>"

definition ex_polarity :: "string \<Rightarrow> real" where
  "ex_polarity title = (if title = ''up'' then 0.4 else if title = ''down'' then - 0.2 else 0)"

definition ex_news :: "news list" where
  "ex_news = [[''title'' \<mapsto> ''up''], [''title'' \<mapsto> ''down''], [''title'' \<mapsto> ''flat'']]"

section \<open>Basic facts about the exception monad and the comparisons\<close>

lemma ebind_Inl [simp]: "ebind (Inl e) f = Inl e"
  by (simp add: ebind_def)

lemma ebind_Inr [simp]: "ebind (Inr x) f = f x"
  by (simp add: ebind_def)

lemma ebind_eq_Inr: "ebind m f = Inr y \<longleftrightarrow> (\<exists>x. m = Inr x \<and> f x = Inr y)"
  by (cases m) simp_all

lemma py_gt_Num [simp]: "py_gt (Num x) (Num y) = Inr (y < x)"
  by (simp add: py_gt_def py_cmp_def)

lemma py_lt_Num [simp]: "py_lt (Num x) (Num y) = Inr (x < y)"
  by (simp add: py_lt_def py_cmp_def)

lemma py_le_Num [simp]: "py_le (Num x) (Num y) = Inr (x \<le> y)"
  by (simp add: py_le_def py_cmp_def)

lemma py_and_Inr [simp]: "py_and (Inr t) b = (if t then b else Inr False)"
  by (simp add: py_and_def)

section \<open>The composite score\<close>

lemma weighted_lower:
  fixes a b c :: real
  assumes "0 \<le> a" "0 \<le> b" "- 100 \<le> c"
  shows "- 10 \<le> a * 0.5 + b * 0.3 + (c + 50) * 0.2"
proof -
  have "a * 0.5 + b * 0.3 + (c + 50) * 0.2 = a / 2 + 3 * b / 10 + c / 5 + 10"
    by (simp add: algebra_simps)
  with assms show ?thesis by linarith
qed

lemma weighted_upper:
  fixes a b c :: real
  assumes "a \<le> 100" "b \<le> 100" "c \<le> 100"
  shows "a * 0.5 + b * 0.3 + (c + 50) * 0.2 \<le> 110"
proof -
  have "a * 0.5 + b * 0.3 + (c + 50) * 0.2 = a / 2 + 3 * b / 10 + c / 5 + 10"
    by (simp add: algebra_simps)
  with assms show ?thesis by linarith
qed

lemma analyze_total:
  assumes "analyze ta polarity_of ws wl data0 news_list = Inr rep"
  shows "r_total_score rep = total_score (r_tech_score rep) (r_sm_score rep) (r_sent_score rep)"
    and "r_tier rep = recommendation (r_total_score rep)"
    and "buy_zone (r_total_score rep) (r_current_price rep) = Inr (r_buy_zone rep)"
    and "\<exists>ts tr d1 da ss sg d2.
           calculate_technical_strategy ta ws wl data0 = Inr ((ts, tr, d1), da)
         \<and> calculate_smart_money ta d1 = Inr ((ss, sg), d2)
         \<and> r_rationale rep = tr @ sg"
  using assms unfolding analyze_def Let_def
  by (auto simp: ebind_eq_Inr case_prod_beta split: if_splits)

text \<open>
  C2. The composite score is the weighted sum
  \<open>tech * 0.5 + sm * 0.3 + (sent + 50) * 0.2\<close> and nothing clamps it afterwards: the
  score the page reports is that sum of the three scores it reports; for scores of the two
  scorers in [0,100] and a sentiment in [-100,100] it lies in [-10,110], with 110 reached
  at (100,100,100) and -10 at (0,0,-100).
\<close>

theorem total_score_range:
  "total_score t s sent = real_of_int t * 0.5 + real_of_int s * 0.3 + (sent + 50) * 0.2
   \<and> (analyze ta polarity_of ws wl data0 news_list = Inr rep \<longrightarrow>
        r_total_score rep = total_score (r_tech_score rep) (r_sm_score rep) (r_sent_score rep))
   \<and> (0 \<le> t \<and> t \<le> 100 \<and> 0 \<le> s \<and> s \<le> 100 \<and> - 100 \<le> sent \<and> sent \<le> 100
        \<longrightarrow> - 10 \<le> total_score t s sent \<and> total_score t s sent \<le> 110)
   \<and> total_score 100 100 100 = 110
   \<and> total_score 0 0 (- 100) = - 10"
proof -
  have "- 10 \<le> total_score t s sent \<and> total_score t s sent \<le> 110"
    if "0 \<le> t \<and> t \<le> 100 \<and> 0 \<le> s \<and> s \<le> 100 \<and> - 100 \<le> sent \<and> sent \<le> 100"
    unfolding total_score_def
    using that weighted_lower [of "real_of_int t" "real_of_int s" sent]
      weighted_upper [of "real_of_int t" "real_of_int s" sent]
    by simp
  moreover have "total_score 100 100 100 = 110" "total_score 0 0 (- 100) = - 10"
    by (simp_all add: total_score_def)
  ultimately show ?thesis
    using analyze_total(1) by (simp add: total_score_def)
qed

theorem total_score_range_witness:
  "(case analyze ex_ta ex_polarity 20 50 ex_bars50 ex_news of
      Inl e \<Rightarrow> False
    | Inr rep \<Rightarrow> r_tech_score rep = 100 \<and> r_sm_score rep = 85 \<and> r_sent_score rep = 20 / 3
        \<and> r_total_score rep = total_score 100 85 (20 / 3))
   \<and> total_score 100 85 (20 / 3) = 521 / 6
   \<and> - 10 \<le> total_score 100 85 (20 / 3) \<and> total_score 100 85 (20 / 3) \<le> 110"
proof -
  have run: "case analyze ex_ta ex_polarity 20 50 ex_bars50 ex_news of
      Inl e \<Rightarrow> False
    | Inr rep \<Rightarrow> r_tech_score rep = 100 \<and> r_sm_score rep = 85 \<and> r_sent_score rep = 20 / 3"
    by code_simp
  then obtain rep where rep: "analyze ex_ta ex_polarity 20 50 ex_bars50 ex_news = Inr rep"
    and sc: "r_tech_score rep = 100" "r_sm_score rep = 85" "r_sent_score rep = 20 / 3"
    by (auto split: sum.splits)
  from total_score_range [of 100 85 "20 / 3" ex_ta ex_polarity 20 50 ex_bars50 ex_news rep]
  show ?thesis
    using rep sc by (simp add: total_score_def)
qed

section \<open>What the scorers do to the frame they are given\<close>

lemma n_index_set_col [simp]: "n_index (set_col df c v) = n_index df"
  by (simp add: set_col_def)

lemma n_index_pd_concat [simp]: "n_index (pd_concat df extra) = n_index df"
  by (simp add: pd_concat_def split: option.splits)

lemma filter_assign:
  "c \<in> S \<Longrightarrow> filter (\<lambda>kv. fst kv \<notin> S) (assign kvs c s) = filter (\<lambda>kv. fst kv \<notin> S) kvs"
  by (induction kvs c s rule: assign.induct) auto

lemma fst_set_assign: "fst ` set (assign kvs c s) = insert c (fst ` set kvs)"
  by (induction kvs c s rule: assign.induct) auto

lemma filter_set_col:
  "c \<in> S \<Longrightarrow> filter (\<lambda>kv. fst kv \<notin> S) (cols (set_col df c v)) = filter (\<lambda>kv. fst kv \<notin> S) (cols df)"
  by (simp add: set_col_def filter_assign)

lemma columns_set_col: "set (columns (set_col df c v)) = insert c (set (columns df))"
  by (simp add: columns_def set_col_def fst_set_assign)

lemma smart_money_indicators_shape:
  assumes "smart_money_indicators ta df0 = Inr df"
  shows "\<exists>v1 v2 v3 v4 v5. df = set_col (set_col (set_col (set_col (set_col df0
            ''Vol_SMA'' v1) ''RVOL'' v2) ''OBV'' v3) ''OBV_EMA'' v4) ''MFI'' v5"
  using assms unfolding smart_money_indicators_def Let_def ebind_eq_Inr
  by blast

lemma technical_indicators_shape:
  assumes "technical_indicators ta ws wl df0 = Inr (df_arg, df)"
  shows "\<exists>v1 v2 v3 e1 e2.
           df_arg = set_col (set_col (set_col df0 ''SMA_Short'' v1) ''SMA_Long'' v2) ''RSI'' v3
         \<and> df = pd_concat (pd_concat df_arg e1) e2"
  using assms unfolding technical_indicators_def Let_def ebind_eq_Inr
  by blast

lemma calculate_smart_money_frame:
  assumes "calculate_smart_money ta df0 = Inr (res, df)"
  shows "smart_money_indicators ta df0 = Inr df"
  using assms unfolding calculate_smart_money_def ebind_eq_Inr by auto

lemma calculate_technical_strategy_frame:
  assumes "calculate_technical_strategy ta ws wl df0 = Inr ((score, reasons, df), df_arg)"
  shows "technical_indicators ta ws wl df0 = Inr (df_arg, df)"
  using assms unfolding calculate_technical_strategy_def
  by (auto simp: ebind_eq_Inr split: prod.splits)


lemma sum_case_FalseE:
  assumes "case x of Inl e \<Rightarrow> False | Inr y \<Rightarrow> P y"
  obtains y where "x = Inr y" and "P y"
  using assms by (cases x) auto

lemma map_of_assign: "map_of (assign kvs c s) = (map_of kvs)(c \<mapsto> s)"
  by (induction kvs c s rule: assign.induct) (auto simp: fun_eq_iff)

lemma df_get_set_col:
  "df_get (set_col df c v) c' =
     (if c' = c then Inr (case v of None \<Rightarrow> replicate (n_index df) NoneV | Some s \<Rightarrow> s)
      else df_get df c')"
  by (simp add: df_get_def set_col_def map_of_assign)

lemma map_fst_assign:
  "map fst (assign kvs c s) = map fst kvs @ (if c \<in> set (map fst kvs) then [] else [c])"
  by (induction kvs c s rule: assign.induct) auto

lemma columns_set_col_list:
  "columns (set_col df c v) = columns df @ (if c \<in> set (columns df) then [] else [c])"
  by (simp add: columns_def set_col_def map_fst_assign)

lemma distinct_columns_set_col:
  "distinct (columns df) \<Longrightarrow> distinct (columns (set_col df c v))"
  by (simp add: columns_set_col_list)

lemma row_get_distinct:
  assumes "distinct (map fst r)"
  shows "row_get r c = (case map_of r c of None \<Rightarrow> Inl KeyError | Some v \<Rightarrow> Inr v)"
  using assms
proof (induction r)
  case Nil
  show ?case by (simp add: row_get_def)
next
  case (Cons kv r)
  obtain k v where kv: "kv = (k, v)"
    by (cases kv)
  show ?case
  proof (cases "k = c")
    case True
    with Cons.prems kv have "c \<notin> fst ` set r"
      by auto
    then have "filter (\<lambda>kv. fst kv = c) r = []"
      by (auto simp: filter_empty_conv)
    with True kv show ?thesis
      by (simp add: row_get_def)
  next
    case False
    with Cons kv show ?thesis
      by (simp add: row_get_def)
  qed
qed

lemma map_of_row:
  "map_of (map (\<lambda>(c, s). (c, f s)) kvs) c = map_option f (map_of kvs c)"
  by (induction kvs) auto

lemma row_get_iloc_neg:
  assumes "distinct (columns df)" and "0 < k" and "k \<le> n_index df"
  shows "\<exists>r. iloc_neg df k = Inr r
    \<and> (\<forall>c. row_get r c = ebind (df_get df c) (\<lambda>s. Inr (cell_at s (n_index df - k))))"
proof -
  let ?r = "map (\<lambda>(c, s). (c, cell_at s (n_index df - k))) (cols df)"
  have r: "iloc_neg df k = Inr ?r"
    using assms(2,3) by (simp add: iloc_neg_def)
  have "map fst ?r = columns df"
    by (simp add: columns_def case_prod_beta comp_def)
  with assms(1) have d: "distinct (map fst ?r)"
    by simp
  have "row_get ?r c = ebind (df_get df c) (\<lambda>s. Inr (cell_at s (n_index df - k)))" for c
    unfolding row_get_distinct [OF d] map_of_row
    by (simp add: df_get_def split: option.splits)
  with r show ?thesis
    by blast
qed

lemma window_mean_Num:
  "window_mean 50 (map Num vs) =
     (if length vs < 50 then NaN else Num (sum_list (drop (length vs - 50) vs) / 50))"
proof -
  have "list_all is_num (drop n (map Num vs))" for n
    by (simp add: list_all_iff drop_map)
  moreover have "map num_of (drop n (map Num vs)) = drop n vs" for n
    by (simp add: drop_map comp_def)
  ultimately show ?thesis
    by (simp add: window_mean_def Let_def)
qed

lemma rolling_mean_Num:
  "rolling_mean 50 (map Num vs) =
     Inr (map (\<lambda>i. window_mean 50 (take (Suc i) (map Num vs))) [0..<length vs])"
  by (auto simp: rolling_mean_def)

lemma series_div_Num:
  assumes "NoneV \<notin> set b"
  shows "series_div (map Num vs) b = Inr (map2 cell_div (map Num vs) b)"
  using assms by (auto simp: series_div_def)

lemma rvol_latest:
  assumes "vs \<noteq> []"
  shows "cell_at (map2 cell_div (map Num vs)
            (map (\<lambda>i. window_mean 50 (take (Suc i) (map Num vs))) [0..<length vs]))
           (length vs - 1)
    = cell_div (Num (last vs)) (window_mean 50 (map Num vs))"
proof -
  from assms have n: "length vs - 1 < length vs"
    by (cases vs) auto
  from assms have l: "vs ! (length vs - Suc 0) = last vs"
    by (simp add: last_conv_nth)
  from assms have t: "take (Suc (length vs - Suc 0)) (map Num vs) = map Num vs"
    by (cases vs) auto
  show ?thesis
    using n by (simp add: cell_at_def l t)
qed

lemma window_mean_notNone: "window_mean w ys \<noteq> NoneV"
  by (simp add: window_mean_def Let_def)

lemma df_get_pd_concat:
  "df_get df c = Inr s \<Longrightarrow> df_get (pd_concat df e) c = Inr s"
  by (cases e) (auto simp: df_get_def pd_concat_def split: option.splits)

lemma cols_pd_concat:
  "cols (pd_concat df e) = cols df @ (case e of None \<Rightarrow> [] | Some f \<Rightarrow> f)"
  by (cases e) (simp_all add: pd_concat_def)

lemma smart_money_indicators_exact:
  assumes "smart_money_indicators ta df0 = Inr df"
  shows "\<exists>volume closes highs lows vol_sma rvol.
      df_get df0 ''Volume'' = Inr volume \<and> df_get df0 ''Close'' = Inr closes
    \<and> df_get df0 ''High'' = Inr highs \<and> df_get df0 ''Low'' = Inr lows
    \<and> rolling_mean 50 volume = Inr vol_sma \<and> series_div volume vol_sma = Inr rvol
    \<and> df = set_col (set_col (set_col (set_col (set_col df0
          ''Vol_SMA'' (Some vol_sma)) ''RVOL'' (Some rvol))
          ''OBV'' (ta_obv ta closes volume))
          ''OBV_EMA'' (ta_ema ta
             (case ta_obv ta closes volume of
                None \<Rightarrow> replicate (n_index df0) NoneV | Some s \<Rightarrow> s) 20))
          ''MFI'' (ta_mfi ta highs lows closes volume 14)"
  using assms unfolding smart_money_indicators_def Let_def
  by (auto simp: ebind_eq_Inr df_get_set_col cong: option.case_cong)

lemma technical_indicators_exact:
  assumes "technical_indicators ta ws wl df0 = Inr (df_arg, df)"
  shows "\<exists>closes. df_get df0 ''Close'' = Inr closes
    \<and> df_arg = set_col (set_col (set_col df0 ''SMA_Short'' (ta_sma ta closes ws))
          ''SMA_Long'' (ta_sma ta closes wl)) ''RSI'' (ta_rsi ta closes 14)
    \<and> df = pd_concat (pd_concat df_arg (ta_macd ta closes)) (ta_bbands ta closes 20)"
proof -
  from assms obtain closes where c: "df_get df0 ''Close'' = Inr closes"
    unfolding technical_indicators_def by (auto simp: ebind_eq_Inr)
  let ?a = "set_col (set_col (set_col df0 ''SMA_Short'' (ta_sma ta closes ws))
          ''SMA_Long'' (ta_sma ta closes wl)) ''RSI'' (ta_rsi ta closes 14)"
  have a: "df_get ?a ''Close'' = Inr closes"
    by (simp add: df_get_set_col c)
  have "technical_indicators ta ws wl df0 =
      Inr (?a, pd_concat (pd_concat ?a (ta_macd ta closes)) (ta_bbands ta closes 20))"
    unfolding technical_indicators_def Let_def
    by (simp add: c df_get_set_col df_get_pd_concat [OF a])
  with assms c show ?thesis
    by auto
qed

lemma columns_five:
  "columns (set_col (set_col (set_col (set_col (set_col df a v1) b v2) c v3) d v4) e v5)
    = columns df @ filter (\<lambda>x. x \<notin> set (columns df)) [a, b, c, d, e]"
  if "distinct [a, b, c, d, e]"
  using that by (auto simp: columns_set_col_list)

lemma columns_three:
  "columns (set_col (set_col (set_col df a v1) b v2) c v3)
    = columns df @ filter (\<lambda>x. x \<notin> set (columns df)) [a, b, c]"
  if "distinct [a, b, c]"
  using that by (auto simp: columns_set_col_list)


text \<open>
  C9, as the program has it. Each scorer assigns its indicator series to the frame it is
  given, and they stay there after the call. After the smart-money scorer the columns
  Vol_SMA, RVOL, OBV, OBV_EMA and MFI of that frame hold the 50-bar rolling mean of the
  volume, the volume divided by it, and what the library gave for OBV, for the EMA of
  length 20 of the OBV column and for MFI of length 14 (a column of \<open>None\<close> where it gave
  \<open>None\<close>); after the technical scorer the columns SMA_Short, SMA_Long and RSI hold what
  the library gave for the two averages and for RSI of length 14. A column that was there
  under one of these labels is overwritten in its place, a new label is appended in this
  order. The index and every other column (the OHLCV bars among them) are unchanged and
  keep their order. The frame the technical scorer returns is a new one: the columns of the
  caller's frame after the call, followed by the MACD columns and then the Bollinger
  columns of the library (none where it gave \<open>None\<close>).
\<close>

theorem scorers_frame_effect:
  "(calculate_smart_money ta df0 = Inr (res, df_after) \<longrightarrow>
      n_index df_after = n_index df0
      \<and> filter (\<lambda>kv. fst kv \<notin> sm_labels) (cols df_after)
          = filter (\<lambda>kv. fst kv \<notin> sm_labels) (cols df0)
      \<and> columns df_after = columns df0 @ filter (\<lambda>c. c \<notin> set (columns df0))
            [''Vol_SMA'', ''RVOL'', ''OBV'', ''OBV_EMA'', ''MFI'']
      \<and> (\<exists>volume closes highs lows vol_sma rvol obvs.
            df_get df0 ''Volume'' = Inr volume \<and> df_get df0 ''Close'' = Inr closes
          \<and> df_get df0 ''High'' = Inr highs \<and> df_get df0 ''Low'' = Inr lows
          \<and> rolling_mean 50 volume = Inr vol_sma \<and> series_div volume vol_sma = Inr rvol
          \<and> obvs = (case ta_obv ta closes volume of
                      None \<Rightarrow> replicate (n_index df0) NoneV | Some s \<Rightarrow> s)
          \<and> df_get df_after ''Vol_SMA'' = Inr vol_sma
          \<and> df_get df_after ''RVOL'' = Inr rvol
          \<and> df_get df_after ''OBV'' = Inr obvs
          \<and> df_get df_after ''OBV_EMA'' =
              Inr (case ta_ema ta obvs 20 of
                     None \<Rightarrow> replicate (n_index df0) NoneV | Some s \<Rightarrow> s)
          \<and> df_get df_after ''MFI'' =
              Inr (case ta_mfi ta highs lows closes volume 14 of
                     None \<Rightarrow> replicate (n_index df0) NoneV | Some s \<Rightarrow> s)))
   \<and> (calculate_technical_strategy ta ws wl df1 = Inr ((score, reasons, df_new), df1_after) \<longrightarrow>
      n_index df1_after = n_index df1
      \<and> filter (\<lambda>kv. fst kv \<notin> tech_labels) (cols df1_after)
          = filter (\<lambda>kv. fst kv \<notin> tech_labels) (cols df1)
      \<and> columns df1_after = columns df1 @ filter (\<lambda>c. c \<notin> set (columns df1))
            [''SMA_Short'', ''SMA_Long'', ''RSI'']
      \<and> (\<exists>closes.
            df_get df1 ''Close'' = Inr closes
          \<and> df_get df1_after ''SMA_Short'' =
              Inr (case ta_sma ta closes ws of
                     None \<Rightarrow> replicate (n_index df1) NoneV | Some s \<Rightarrow> s)
          \<and> df_get df1_after ''SMA_Long'' =
              Inr (case ta_sma ta closes wl of
                     None \<Rightarrow> replicate (n_index df1) NoneV | Some s \<Rightarrow> s)
          \<and> df_get df1_after ''RSI'' =
              Inr (case ta_rsi ta closes 14 of
                     None \<Rightarrow> replicate (n_index df1) NoneV | Some s \<Rightarrow> s)
          \<and> n_index df_new = n_index df1
          \<and> cols df_new = cols df1_after
              @ (case ta_macd ta closes of None \<Rightarrow> [] | Some f \<Rightarrow> f)
              @ (case ta_bbands ta closes 20 of None \<Rightarrow> [] | Some f \<Rightarrow> f)))"
proof (intro conjI impI)
  assume a: "calculate_smart_money ta df0 = Inr (res, df_after)"
  from smart_money_indicators_exact [OF calculate_smart_money_frame [OF a]]
  obtain volume closes highs lows vol_sma rvol where
    src: "df_get df0 ''Volume'' = Inr volume" "df_get df0 ''Close'' = Inr closes"
      "df_get df0 ''High'' = Inr highs" "df_get df0 ''Low'' = Inr lows"
      "rolling_mean 50 volume = Inr vol_sma" "series_div volume vol_sma = Inr rvol"
    and df: "df_after = set_col (set_col (set_col (set_col (set_col df0
          ''Vol_SMA'' (Some vol_sma)) ''RVOL'' (Some rvol))
          ''OBV'' (ta_obv ta closes volume))
          ''OBV_EMA'' (ta_ema ta
             (case ta_obv ta closes volume of
                None \<Rightarrow> replicate (n_index df0) NoneV | Some s \<Rightarrow> s) 20))
          ''MFI'' (ta_mfi ta highs lows closes volume 14)"
    by blast
  show "n_index df_after = n_index df0"
    by (simp add: df)
  show "filter (\<lambda>kv. fst kv \<notin> sm_labels) (cols df_after)
          = filter (\<lambda>kv. fst kv \<notin> sm_labels) (cols df0)"
  proof -
    have "''Vol_SMA'' \<in> sm_labels" "''RVOL'' \<in> sm_labels" "''OBV'' \<in> sm_labels"
      "''OBV_EMA'' \<in> sm_labels" "''MFI'' \<in> sm_labels"
      by (simp_all add: sm_labels_def)
    then show ?thesis
      by (simp add: df filter_set_col)
  qed
  show "columns df_after = columns df0 @ filter (\<lambda>c. c \<notin> set (columns df0))
            [''Vol_SMA'', ''RVOL'', ''OBV'', ''OBV_EMA'', ''MFI'']"
    unfolding df by (rule columns_five) simp
  show "\<exists>volume closes highs lows vol_sma rvol obvs.
            df_get df0 ''Volume'' = Inr volume \<and> df_get df0 ''Close'' = Inr closes
          \<and> df_get df0 ''High'' = Inr highs \<and> df_get df0 ''Low'' = Inr lows
          \<and> rolling_mean 50 volume = Inr vol_sma \<and> series_div volume vol_sma = Inr rvol
          \<and> obvs = (case ta_obv ta closes volume of
                      None \<Rightarrow> replicate (n_index df0) NoneV | Some s \<Rightarrow> s)
          \<and> df_get df_after ''Vol_SMA'' = Inr vol_sma
          \<and> df_get df_after ''RVOL'' = Inr rvol
          \<and> df_get df_after ''OBV'' = Inr obvs
          \<and> df_get df_after ''OBV_EMA'' =
              Inr (case ta_ema ta obvs 20 of
                     None \<Rightarrow> replicate (n_index df0) NoneV | Some s \<Rightarrow> s)
          \<and> df_get df_after ''MFI'' =
              Inr (case ta_mfi ta highs lows closes volume 14 of
                     None \<Rightarrow> replicate (n_index df0) NoneV | Some s \<Rightarrow> s)"
    apply (rule exI [of _ volume], rule exI [of _ closes], rule exI [of _ highs],
        rule exI [of _ lows], rule exI [of _ vol_sma], rule exI [of _ rvol])
    apply (rule exI [of _ "case ta_obv ta closes volume of
                      None \<Rightarrow> replicate (n_index df0) NoneV | Some s \<Rightarrow> s"])
    apply (simp add: src df df_get_set_col cong: option.case_cong)
    done
next
  assume a: "calculate_technical_strategy ta ws wl df1 = Inr ((score, reasons, df_new), df1_after)"
  from technical_indicators_exact [OF calculate_technical_strategy_frame [OF a]]
  obtain closes where c: "df_get df1 ''Close'' = Inr closes"
    and df: "df1_after = set_col (set_col (set_col df1 ''SMA_Short'' (ta_sma ta closes ws))
          ''SMA_Long'' (ta_sma ta closes wl)) ''RSI'' (ta_rsi ta closes 14)"
    and new: "df_new = pd_concat (pd_concat df1_after (ta_macd ta closes)) (ta_bbands ta closes 20)"
    by blast
  show "n_index df1_after = n_index df1"
    by (simp add: df)
  show "filter (\<lambda>kv. fst kv \<notin> tech_labels) (cols df1_after)
          = filter (\<lambda>kv. fst kv \<notin> tech_labels) (cols df1)"
  proof -
    have "''SMA_Short'' \<in> tech_labels" "''SMA_Long'' \<in> tech_labels" "''RSI'' \<in> tech_labels"
      by (simp_all add: tech_labels_def)
    then show ?thesis
      by (simp add: df filter_set_col)
  qed
  show "columns df1_after = columns df1 @ filter (\<lambda>c. c \<notin> set (columns df1))
            [''SMA_Short'', ''SMA_Long'', ''RSI'']"
    unfolding df by (rule columns_three) simp
  show "\<exists>closes.
            df_get df1 ''Close'' = Inr closes
          \<and> df_get df1_after ''SMA_Short'' =
              Inr (case ta_sma ta closes ws of
                     None \<Rightarrow> replicate (n_index df1) NoneV | Some s \<Rightarrow> s)
          \<and> df_get df1_after ''SMA_Long'' =
              Inr (case ta_sma ta closes wl of
                     None \<Rightarrow> replicate (n_index df1) NoneV | Some s \<Rightarrow> s)
          \<and> df_get df1_after ''RSI'' =
              Inr (case ta_rsi ta closes 14 of
                     None \<Rightarrow> replicate (n_index df1) NoneV | Some s \<Rightarrow> s)
          \<and> n_index df_new = n_index df1
          \<and> cols df_new = cols df1_after
              @ (case ta_macd ta closes of None \<Rightarrow> [] | Some f \<Rightarrow> f)
              @ (case ta_bbands ta closes 20 of None \<Rightarrow> [] | Some f \<Rightarrow> f)"
    apply (rule exI [of _ closes])
    apply (simp add: c new cols_pd_concat)
    apply (simp add: df df_get_set_col cong: option.case_cong)
    done
qed

text \<open>
  On two bars both scorers return, and the frame passed in has afterwards the indicator
  columns it did not have before: the input is not left as it was.
\<close>

theorem scorers_frame_effect_counterexample:
  "calculate_smart_money ta_nan ex_bars2 = Inr ((50, []), ex_bars2_sm)
   \<and> ex_bars2_sm \<noteq> ex_bars2
   \<and> columns ex_bars2_sm = columns ex_bars2 @ [''Vol_SMA'', ''RVOL'', ''OBV'', ''OBV_EMA'', ''MFI'']
   \<and> calculate_technical_strategy ta_nan 20 50 ex_bars2
       = Inr ((50, [], ex_bars2_tech_new), ex_bars2_tech)
   \<and> ex_bars2_tech \<noteq> ex_bars2
   \<and> columns ex_bars2_tech = columns ex_bars2 @ [''SMA_Short'', ''SMA_Long'', ''RSI'']"
  by code_simp

theorem scorers_frame_effect_witness:
  "df_get ex_bars2_stale ''MFI'' = Inr [Num 99, Num 99]
   \<and> df_get ex_bars2_stale ''RSI'' = Inr [Num 99, Num 99]
   \<and> (case calculate_smart_money ta_nan ex_bars2_stale of
        Inl e \<Rightarrow> False
      | Inr (res, df_after) \<Rightarrow> n_index df_after = 2
          \<and> columns df_after = [''Open'', ''High'', ''Low'', ''Close'', ''Volume'', ''RSI'',
               ''MFI'', ''Vol_SMA'', ''RVOL'', ''OBV'', ''OBV_EMA'']
          \<and> df_get df_after ''MFI'' = Inr [NaN, NaN]
          \<and> df_get df_after ''Vol_SMA'' = Inr [NaN, NaN])
   \<and> (case calculate_technical_strategy ta_nan 20 50 ex_bars2_stale of
        Inl e \<Rightarrow> False
      | Inr (res, df_after) \<Rightarrow> n_index df_after = 2
          \<and> columns df_after = [''Open'', ''High'', ''Low'', ''Close'', ''Volume'', ''RSI'',
               ''MFI'', ''SMA_Short'', ''SMA_Long'']
          \<and> df_get df_after ''RSI'' = Inr [NaN, NaN]
          \<and> cols (snd (snd (res))) = cols df_after @
               [(''MACD_12_26_9'', [NaN, NaN]), (''MACDh_12_26_9'', [NaN, NaN]),
                (''MACDs_12_26_9'', [NaN, NaN]), (''BBL_20_2.0'', [NaN, NaN]),
                (''BBM_20_2.0'', [NaN, NaN]), (''BBU_20_2.0'', [NaN, NaN])])"
proof -
  have "case calculate_smart_money ta_nan ex_bars2_stale of Inl e \<Rightarrow> False | Inr r \<Rightarrow> True"
    by code_simp
  then obtain res df_after where
    sm: "calculate_smart_money ta_nan ex_bars2_stale = Inr (res, df_after)"
    by (auto split: sum.splits)
  have "case calculate_technical_strategy ta_nan 20 50 ex_bars2_stale of
      Inl e \<Rightarrow> False | Inr r \<Rightarrow> True"
    by code_simp
  then obtain score reasons df_new df1_after where
    tech: "calculate_technical_strategy ta_nan 20 50 ex_bars2_stale
      = Inr ((score, reasons, df_new), df1_after)"
    by (auto split: sum.splits)
  have src: "df_get ex_bars2_stale ''Volume'' = Inr [Num 100, Num 100]"
    "df_get ex_bars2_stale ''Close'' = Inr [Num 10, Num 10]"
    "df_get ex_bars2_stale ''High'' = Inr [Num 12, Num 12]"
    "df_get ex_bars2_stale ''Low'' = Inr [Num 8, Num 8]"
    "df_get ex_bars2_stale ''MFI'' = Inr [Num 99, Num 99]"
    "df_get ex_bars2_stale ''RSI'' = Inr [Num 99, Num 99]"
    "n_index ex_bars2_stale = 2"
    "columns ex_bars2_stale = [''Open'', ''High'', ''Low'', ''Close'', ''Volume'', ''RSI'', ''MFI'']"
    by (simp_all add: ex_bars2_stale_def ex_bars2_def df_get_def columns_def)
  have roll: "rolling_mean 50 [Num 100, Num 100] = Inr [NaN, NaN]"
    by code_simp
  from scorers_frame_effect [of ta_nan ex_bars2_stale res df_after 20 50 ex_bars2_stale
      score reasons df_new df1_after]
  show ?thesis
    using sm tech by (auto simp: src roll ta_nan_def)
qed

section \<open>The scores of the two scorers\<close>

lemma rule_volume_Num:
  assumes "row_get latest ''RVOL'' = Inr (Num rvol)"
    and "row_get latest ''Close'' = Inr (Num c)"
    and "row_get latest ''Open'' = Inr (Num opn)"
  shows "rule_volume latest st =
     Inr (if rvol > 1.5 \<and> c > opn then (fst st + 15, snd st @ [VolumeSpikeUp])
          else if rvol > 1.5 \<and> c < opn then (fst st - 15, snd st @ [VolumeSpikeDown])
          else st)"
  using assms by (simp add: rule_volume_def)

lemma rule_obv_Num:
  assumes "row_get latest ''OBV'' = Inr (Num obv)"
    and "row_get latest ''OBV_EMA'' = Inr (Num obv_ema)"
  shows "rule_obv latest st =
     Inr (if obv > obv_ema then (fst st + 10, snd st @ [OBVAboveEMA]) else st)"
  using assms by (simp add: rule_obv_def)

lemma rule_mfi_Num:
  assumes "row_get latest ''MFI'' = Inr (Num mfi)"
  shows "rule_mfi latest st =
     Inr (if mfi > 80 then (fst st - 10, snd st @ [MFIOverheated])
          else if mfi < 20 then (fst st + 10, snd st @ [MFIOversold])
          else st)"
  using assms by (simp add: rule_mfi_def)

lemma smart_money_score_Num:
  assumes "row_get latest ''RVOL'' = Inr (Num rvol)"
    and "row_get latest ''Close'' = Inr (Num c)"
    and "row_get latest ''Open'' = Inr (Num opn)"
    and "row_get latest ''OBV'' = Inr (Num obv)"
    and "row_get latest ''OBV_EMA'' = Inr (Num obv_ema)"
    and "row_get latest ''MFI'' = Inr (Num mfi)"
  shows "smart_money_score latest =
     Inr (max 0 (min 100 (50 + 15 * of_bool (rvol > 1.5 \<and> c > opn)
                             - 15 * of_bool (rvol > 1.5 \<and> c < opn)
                             + 10 * of_bool (obv > obv_ema)
                             - 10 * of_bool (mfi > 80)
                             + 10 * of_bool (mfi < 20))),
          (if rvol > 1.5 \<and> c > opn then [VolumeSpikeUp]
           else if rvol > 1.5 \<and> c < opn then [VolumeSpikeDown] else [])
          @ (if obv > obv_ema then [OBVAboveEMA] else [])
          @ (if mfi > 80 then [MFIOverheated] else if mfi < 20 then [MFIOversold] else []))"
  unfolding smart_money_score_def
  by (simp add: rule_volume_Num [OF assms(1-3)] rule_obv_Num [OF assms(4,5)]
      rule_mfi_Num [OF assms(6)])

lemma rule_trend_Num:
  assumes "row_get latest ''SMA_Long'' = Inr (Num sma)"
    and "row_get latest ''Close'' = Inr (Num c)"
  shows "rule_trend latest st =
     Inr (if c > sma then (fst st + 10, snd st @ [PriceAboveLongSMA]) else st)"
  using assms by (simp add: rule_trend_def)

lemma rule_rsi_Num:
  assumes "row_get latest ''RSI'' = Inr (Num rsi)"
  shows "rule_rsi latest st =
     Inr (if rsi < 30 then (fst st + 20, snd st @ [RSIOversold])
          else if rsi > 70 then (fst st - 20, snd st @ [RSIOverbought])
          else st)"
  using assms by (simp add: rule_rsi_def)

lemma rule_macd_Num:
  assumes "''MACD_12_26_9'' \<in> set cs"
    and "row_get latest ''MACD_12_26_9'' = Inr (Num l)"
    and "row_get latest ''MACDs_12_26_9'' = Inr (Num s)"
    and "row_get prev ''MACD_12_26_9'' = Inr (Num pl)"
    and "row_get prev ''MACDs_12_26_9'' = Inr (Num ps)"
  shows "rule_macd cs latest prev st =
     Inr (if l > s \<and> pl \<le> ps then (fst st + 15, snd st @ [MACDGoldenCross]) else st)"
  using assms by (simp add: rule_macd_def)

lemma rule_bollinger_Num:
  assumes "''BBL_20_2.0'' \<in> set cs"
    and "row_get latest ''Close'' = Inr (Num c)"
    and "row_get latest ''BBL_20_2.0'' = Inr (Num bbl)"
  shows "rule_bollinger cs latest st =
     Inr (if c < bbl then (fst st + 15, snd st @ [BelowLowerBollinger]) else st)"
  using assms by (simp add: rule_bollinger_def)

lemma rule_macd_absent: "''MACD_12_26_9'' \<notin> set cs \<Longrightarrow> rule_macd cs latest prev st = Inr st"
  by (simp add: rule_macd_def)

lemma rule_bollinger_absent: "''BBL_20_2.0'' \<notin> set cs \<Longrightarrow> rule_bollinger cs latest st = Inr st"
  by (simp add: rule_bollinger_def)

lemma technical_score_Num:
  assumes "row_get latest ''SMA_Long'' = Inr (Num sma)"
    and "row_get latest ''Close'' = Inr (Num c)"
    and "row_get latest ''RSI'' = Inr (Num rsi)"
    and "''MACD_12_26_9'' \<in> set cs"
    and "row_get latest ''MACD_12_26_9'' = Inr (Num l)"
    and "row_get latest ''MACDs_12_26_9'' = Inr (Num s)"
    and "row_get prev ''MACD_12_26_9'' = Inr (Num pl)"
    and "row_get prev ''MACDs_12_26_9'' = Inr (Num ps)"
    and "''BBL_20_2.0'' \<in> set cs"
    and "row_get latest ''BBL_20_2.0'' = Inr (Num bbl)"
  shows "technical_score cs latest prev =
     Inr (max 0 (min 100 (50 + 10 * of_bool (c > sma)
                             + 20 * of_bool (rsi < 30)
                             - 20 * of_bool (rsi > 70)
                             + 15 * of_bool (l > s \<and> pl \<le> ps)
                             + 15 * of_bool (c < bbl))),
          (if c > sma then [PriceAboveLongSMA] else [])
          @ (if rsi < 30 then [RSIOversold] else if rsi > 70 then [RSIOverbought] else [])
          @ (if l > s \<and> pl \<le> ps then [MACDGoldenCross] else [])
          @ (if c < bbl then [BelowLowerBollinger] else []))"
  unfolding technical_score_def
  by (simp add: rule_trend_Num [OF assms(1,2)] rule_rsi_Num [OF assms(3)]
      rule_macd_Num [OF assms(4-8)] rule_bollinger_Num [OF assms(9,2,10)])

lemma sum_list_perm4:
  fixes a b c d :: int
  assumes "mset ds = mset [a, b, c, d]"
  shows "sum_list ds = a + b + c + d"
proof -
  have "sum_list ds = sum_mset (mset ds)"
    by (simp add: sum_mset_sum_list)
  also have "\<dots> = a + b + c + d"
    by (simp add: assms)
  finally show ?thesis .
qed

lemma row_get_iloc_columns:
  assumes "iloc_neg df k = Inr r" and "row_get r c = Inr v"
  shows "c \<in> set (columns df)"
proof -
  from assms(1) have r: "r = map (\<lambda>(c, s). (c, cell_at s (n_index df - k))) (cols df)"
    by (simp add: iloc_neg_def split: if_splits)
  from assms(2) have "filter (\<lambda>kv. fst kv = c) r \<noteq> []"
    by (auto simp: row_get_def)
  then obtain kv where "kv \<in> set r" "fst kv = c"
    by (metis (mono_tags, lifting) filter_False)
  then show ?thesis
    unfolding r columns_def by force
qed


lemma technical_score_bounds:
  assumes "technical_score cs latest prev = Inr (sc, rs)"
  shows "0 \<le> sc \<and> sc \<le> 100"
  using assms unfolding technical_score_def
  by (auto simp: ebind_eq_Inr)

lemma smart_money_score_bounds:
  assumes "smart_money_score latest = Inr (sc, rs)"
  shows "0 \<le> sc \<and> sc \<le> 100"
  using assms unfolding smart_money_score_def
  by (auto simp: ebind_eq_Inr)

lemma calculate_technical_strategy_bounds:
  assumes "calculate_technical_strategy ta ws wl df0 = Inr ((sc, rs, d), da)"
  shows "0 \<le> sc \<and> sc \<le> 100"
  using assms technical_score_bounds unfolding calculate_technical_strategy_def
  by (fastforce simp: ebind_eq_Inr split: prod.splits)

lemma calculate_smart_money_bounds:
  assumes "calculate_smart_money ta df0 = Inr ((sc, rs), d)"
  shows "0 \<le> sc \<and> sc \<le> 100"
  using assms smart_money_score_bounds unfolding calculate_smart_money_def
  by (fastforce simp: ebind_eq_Inr split: prod.splits)


text \<open>
  C4. On a frame with at least two bars whose indicator values at the latest bar (and the
  MACD values at the previous bar) are numbers, the technical scorer returns the score
  clamp(50 + 10[close > long SMA] + 20[RSI < 30] - 20[RSI > 70] + 15[MACD golden cross]
  + 15[close < lower band], 0, 100). The two RSI branches exclude each other and an RSI in
  [30,70] adds nothing; the score is in [0,100] (also for every other input on which the
  scorer returns); the sum does not depend on the order of the deltas; and the list of
  reasons has one entry for each rule that fires, in the order of the rules.
\<close>

theorem technical_score_formula:
  assumes ind: "technical_indicators ta ws wl df0 = Inr (df_arg, df)"
    and latest: "iloc_neg df 1 = Inr latest"
    and prev: "iloc_neg df 2 = Inr prev"
    and sma: "row_get latest ''SMA_Long'' = Inr (Num sma)"
    and close: "row_get latest ''Close'' = Inr (Num c)"
    and rsi: "row_get latest ''RSI'' = Inr (Num rsi)"
    and macd: "row_get latest ''MACD_12_26_9'' = Inr (Num l)"
    and macds: "row_get latest ''MACDs_12_26_9'' = Inr (Num s)"
    and pmacd: "row_get prev ''MACD_12_26_9'' = Inr (Num pl)"
    and pmacds: "row_get prev ''MACDs_12_26_9'' = Inr (Num ps)"
    and bbl: "row_get latest ''BBL_20_2.0'' = Inr (Num bbl)"
  shows "\<exists>score reasons.
      calculate_technical_strategy ta ws wl df0 = Inr ((score, reasons, df), df_arg)
    \<and> score = max 0 (min 100 (50 + 10 * of_bool (c > sma)
                                 + 20 * of_bool (rsi < 30)
                                 - 20 * of_bool (rsi > 70)
                                 + 15 * of_bool (l > s \<and> pl \<le> ps)
                                 + 15 * of_bool (c < bbl)))
    \<and> 0 \<le> score \<and> score \<le> 100
    \<and> \<not> (rsi < 30 \<and> rsi > 70)
    \<and> \<not> (RSIOversold \<in> set reasons \<and> RSIOverbought \<in> set reasons)
    \<and> (30 \<le> rsi \<and> rsi \<le> 70 \<longrightarrow> RSIOversold \<notin> set reasons \<and> RSIOverbought \<notin> set reasons)
    \<and> (\<forall>ds. mset ds = mset [10 * of_bool (c > sma),
                               20 * of_bool (rsi < 30) - 20 * of_bool (rsi > 70),
                               15 * of_bool (l > s \<and> pl \<le> ps),
                               15 * of_bool (c < bbl)]
           \<longrightarrow> score = max 0 (min 100 (50 + sum_list ds)))
    \<and> reasons = (if c > sma then [PriceAboveLongSMA] else [])
          @ (if rsi < 30 then [RSIOversold] else if rsi > 70 then [RSIOverbought] else [])
          @ (if l > s \<and> pl \<le> ps then [MACDGoldenCross] else [])
          @ (if c < bbl then [BelowLowerBollinger] else [])
    \<and> int (length reasons) = of_bool (c > sma) + of_bool (rsi < 30) + of_bool (rsi > 70)
          + of_bool (l > s \<and> pl \<le> ps) + of_bool (c < bbl)
    \<and> (\<forall>ta' ws' wl' df' sc rs d da.
          calculate_technical_strategy ta' ws' wl' df' = Inr ((sc, rs, d), da)
           \<longrightarrow> 0 \<le> sc \<and> sc \<le> 100)"
proof -
  have all: "\<forall>ta' ws' wl' df' sc rs d da.
          calculate_technical_strategy ta' ws' wl' df' = Inr ((sc, rs, d), da)
           \<longrightarrow> 0 \<le> sc \<and> sc \<le> 100"
    using calculate_technical_strategy_bounds by blast
  have cols: "''MACD_12_26_9'' \<in> set (columns df)" "''BBL_20_2.0'' \<in> set (columns df)"
    using row_get_iloc_columns [OF latest macd] row_get_iloc_columns [OF latest bbl] by simp_all
  note sc = technical_score_Num [OF sma close rsi cols(1) macd macds pmacd pmacds cols(2) bbl]
  have run: "calculate_technical_strategy ta ws wl df0 =
      Inr ((max 0 (min 100 (50 + 10 * of_bool (c > sma)
                             + 20 * of_bool (rsi < 30)
                             - 20 * of_bool (rsi > 70)
                             + 15 * of_bool (l > s \<and> pl \<le> ps)
                             + 15 * of_bool (c < bbl))),
          (if c > sma then [PriceAboveLongSMA] else [])
          @ (if rsi < 30 then [RSIOversold] else if rsi > 70 then [RSIOverbought] else [])
          @ (if l > s \<and> pl \<le> ps then [MACDGoldenCross] else [])
          @ (if c < bbl then [BelowLowerBollinger] else []), df), df_arg)"
    unfolding calculate_technical_strategy_def
    using latest prev by (simp add: ind sc)
  have comm: "\<forall>ds. mset ds = mset [10 * of_bool (c > sma),
                               20 * of_bool (rsi < 30) - 20 * of_bool (rsi > 70),
                               15 * of_bool (l > s \<and> pl \<le> ps),
                               15 * of_bool (c < bbl)]
           \<longrightarrow> max 0 (min 100 (50 + 10 * of_bool (c > sma)
                             + 20 * of_bool (rsi < 30)
                             - 20 * of_bool (rsi > 70)
                             + 15 * of_bool (l > s \<and> pl \<le> ps)
                             + 15 * of_bool (c < bbl) :: int)) = max 0 (min 100 (50 + sum_list ds))"
  proof (intro allI impI)
    fix ds :: "int list"
    assume "mset ds = mset [10 * of_bool (c > sma),
                               20 * of_bool (rsi < 30) - 20 * of_bool (rsi > 70),
                               15 * of_bool (l > s \<and> pl \<le> ps),
                               15 * of_bool (c < bbl)]"
    from sum_list_perm4 [OF this]
    have "50 + 10 * of_bool (c > sma) + 20 * of_bool (rsi < 30) - 20 * of_bool (rsi > 70)
            + 15 * of_bool (l > s \<and> pl \<le> ps) + 15 * of_bool (c < bbl) = 50 + sum_list ds"
      by linarith
    then show "max 0 (min 100 (50 + 10 * of_bool (c > sma)
                             + 20 * of_bool (rsi < 30)
                             - 20 * of_bool (rsi > 70)
                             + 15 * of_bool (l > s \<and> pl \<le> ps)
                             + 15 * of_bool (c < bbl) :: int)) = max 0 (min 100 (50 + sum_list ds))"
      by (simp only:)
  qed
  show ?thesis
    apply (rule exI, rule exI)
    apply (intro conjI)
            apply (rule run)
           apply (rule refl)
          apply simp
         apply simp
        apply simp
       apply simp
      apply simp
     apply (rule comm)
     apply (rule refl)
     apply simp
    apply (rule all)
    done
qed

theorem technical_score_formula_witness:
  "(case calculate_technical_strategy ex_ta 20 50 ex_bars2 of
      Inl e \<Rightarrow> False
    | Inr ((score, reasons, df), df_arg) \<Rightarrow> score = 100
        \<and> reasons = [PriceAboveLongSMA, RSIOversold, MACDGoldenCross, BelowLowerBollinger])"
proof -
  have "case technical_indicators ex_ta 20 50 ex_bars2 of
      Inl e \<Rightarrow> False
    | Inr p \<Rightarrow> (case iloc_neg (snd p) 1 of
        Inl e \<Rightarrow> False
      | Inr latest \<Rightarrow> (case iloc_neg (snd p) 2 of
          Inl e \<Rightarrow> False
        | Inr prev \<Rightarrow> row_get latest ''SMA_Long'' = Inr (Num 9)
          \<and> row_get latest ''Close'' = Inr (Num 10)
          \<and> row_get latest ''RSI'' = Inr (Num 25)
          \<and> row_get latest ''MACD_12_26_9'' = Inr (Num 1)
          \<and> row_get latest ''MACDs_12_26_9'' = Inr (Num 0)
          \<and> row_get prev ''MACD_12_26_9'' = Inr (Num 0)
          \<and> row_get prev ''MACDs_12_26_9'' = Inr (Num 0)
          \<and> row_get latest ''BBL_20_2.0'' = Inr (Num 11)))"
    by code_simp
  then obtain p latest prev where "technical_indicators ex_ta 20 50 ex_bars2 = Inr p"
    and h: "iloc_neg (snd p) 1 = Inr latest"
    "iloc_neg (snd p) 2 = Inr prev"
    "row_get latest ''SMA_Long'' = Inr (Num 9)"
    "row_get latest ''Close'' = Inr (Num 10)"
    "row_get latest ''RSI'' = Inr (Num 25)"
    "row_get latest ''MACD_12_26_9'' = Inr (Num 1)"
    "row_get latest ''MACDs_12_26_9'' = Inr (Num 0)"
    "row_get prev ''MACD_12_26_9'' = Inr (Num 0)"
    "row_get prev ''MACDs_12_26_9'' = Inr (Num 0)"
    "row_get latest ''BBL_20_2.0'' = Inr (Num 11)"
    by (elim sum_case_FalseE conjE) blast
  then have ind: "technical_indicators ex_ta 20 50 ex_bars2 = Inr (fst p, snd p)"
    by simp
  from technical_score_formula [OF ind h]
  show ?thesis
    by auto
qed

lemma py_cmp_float:
  assumes "is_float a" and "is_float b"
  shows "py_gt a b = Inr (cell_lt b a)" and "py_lt a b = Inr (cell_lt a b)"
    and "py_le a b = Inr (cell_le a b)"
  using assms by (simp_all add: is_float_def py_gt_def py_lt_def py_le_def py_cmp_def)

lemma is_float_Num [simp]: "is_float (Num x)"
  by (simp add: is_float_def)

lemma cell_lt_asym: "cell_lt a b \<Longrightarrow> \<not> cell_lt b a"
  by (cases a; cases b) simp_all

lemma cell_lt_bounds_excl: "cell_lt (Num 80) m \<Longrightarrow> \<not> cell_lt m (Num 20)"
  by (cases m) simp_all

lemma smart_money_score_float:
  assumes "row_get latest ''RVOL'' = Inr rvol" "is_float rvol"
    and "row_get latest ''Close'' = Inr c" "is_float c"
    and "row_get latest ''Open'' = Inr opn" "is_float opn"
    and "row_get latest ''OBV'' = Inr obv" "is_float obv"
    and "row_get latest ''OBV_EMA'' = Inr obv_ema" "is_float obv_ema"
    and "row_get latest ''MFI'' = Inr mfi" "is_float mfi"
  shows "smart_money_score latest =
     Inr (max 0 (min 100 (50 + 15 * of_bool (cell_lt (Num 1.5) rvol \<and> cell_lt opn c)
                             - 15 * of_bool (cell_lt (Num 1.5) rvol \<and> cell_lt c opn)
                             + 10 * of_bool (cell_lt obv_ema obv)
                             - 10 * of_bool (cell_lt (Num 80) mfi)
                             + 10 * of_bool (cell_lt mfi (Num 20)))),
          (if cell_lt (Num 1.5) rvol \<and> cell_lt opn c then [VolumeSpikeUp]
           else if cell_lt (Num 1.5) rvol \<and> cell_lt c opn then [VolumeSpikeDown] else [])
          @ (if cell_lt obv_ema obv then [OBVAboveEMA] else [])
          @ (if cell_lt (Num 80) mfi then [MFIOverheated]
             else if cell_lt mfi (Num 20) then [MFIOversold] else []))"
proof -
  have v: "rule_volume latest st =
     Inr (if cell_lt (Num 1.5) rvol \<and> cell_lt opn c then (fst st + 15, snd st @ [VolumeSpikeUp])
          else if cell_lt (Num 1.5) rvol \<and> cell_lt c opn
               then (fst st - 15, snd st @ [VolumeSpikeDown])
          else st)" for st
    using assms(1-6) by (simp add: rule_volume_def py_cmp_float)
  have o: "rule_obv latest st =
     Inr (if cell_lt obv_ema obv then (fst st + 10, snd st @ [OBVAboveEMA]) else st)" for st
    using assms(7-10) by (simp add: rule_obv_def py_cmp_float)
  have m: "rule_mfi latest st =
     Inr (if cell_lt (Num 80) mfi then (fst st - 10, snd st @ [MFIOverheated])
          else if cell_lt mfi (Num 20) then (fst st + 10, snd st @ [MFIOversold])
          else st)" for st
    using assms(11,12) by (simp add: rule_mfi_def py_cmp_float)
  show ?thesis
    unfolding smart_money_score_def
    using cell_lt_asym [of opn c] cell_lt_bounds_excl [of mfi]
    by (auto simp: v o m)
qed

lemma cell_lt_irrefl [simp]: "\<not> cell_lt a a"
  by (cases a) simp_all

lemma cell_div_Num_notNone: "cell_div (Num v) b \<noteq> NoneV \<and> cell_div (Num v) b \<noteq> Dup"
  by (cases b) simp_all

lemma smart_money_run:
  assumes dist: "distinct (columns df0)"
    and n: "n_index df0 = length vs" and ne: "vs \<noteq> []"
    and volume: "df_get df0 ''Volume'' = Inr (map Num vs)"
    and closes: "df_get df0 ''Close'' = Inr closes"
    and opens: "df_get df0 ''Open'' = Inr opens"
    and highs: "df_get df0 ''High'' = Inr highs"
    and lows: "df_get df0 ''Low'' = Inr lows"
    and obvs: "ta_obv ta closes (map Num vs) = Some obvs"
    and emas: "ta_ema ta obvs 20 = Some emas"
    and mfis: "ta_mfi ta highs lows closes (map Num vs) 14 = Some mfis"
  shows "\<exists>df latest. smart_money_indicators ta df0 = Inr df \<and> iloc_neg df 1 = Inr latest
    \<and> row_get latest ''RVOL'' = Inr (cell_div (Num (last vs)) (window_mean 50 (map Num vs)))
    \<and> row_get latest ''Close'' = Inr (cell_at closes (length vs - 1))
    \<and> row_get latest ''Open'' = Inr (cell_at opens (length vs - 1))
    \<and> row_get latest ''OBV'' = Inr (cell_at obvs (length vs - 1))
    \<and> row_get latest ''OBV_EMA'' = Inr (cell_at emas (length vs - 1))
    \<and> row_get latest ''MFI'' = Inr (cell_at mfis (length vs - 1))"
proof -
  let ?vol_sma = "map (\<lambda>i. window_mean 50 (take (Suc i) (map Num vs))) [0..<length vs]"
  let ?rvol = "map2 cell_div (map Num vs) ?vol_sma"
  let ?df = "set_col (set_col (set_col (set_col (set_col df0 ''Vol_SMA'' (Some ?vol_sma))
      ''RVOL'' (Some ?rvol)) ''OBV'' (Some obvs)) ''OBV_EMA'' (Some emas)) ''MFI'' (Some mfis)"
  have nn: "NoneV \<notin> set ?vol_sma"
    by (auto simp: window_mean_notNone [symmetric])
  have ind: "smart_money_indicators ta df0 = Inr ?df"
    unfolding smart_money_indicators_def Let_def
    by (simp add: df_get_set_col volume closes opens highs lows rolling_mean_Num
        series_div_Num [OF nn] obvs emas mfis)
  have d: "distinct (columns ?df)"
    using dist by (intro distinct_columns_set_col)
  have k: "0 < (1::nat)" "1 \<le> n_index ?df"
    using n ne by (simp_all add: Suc_leI)
  from row_get_iloc_neg [OF d k] obtain latest where l: "iloc_neg ?df 1 = Inr latest"
    and r: "\<And>c. row_get latest c = ebind (df_get ?df c) (\<lambda>s. Inr (cell_at s (n_index ?df - 1)))"
    by blast
  have "row_get latest ''RVOL'' = Inr (cell_div (Num (last vs)) (window_mean 50 (map Num vs)))"
    using rvol_latest [OF ne] by (simp add: r df_get_set_col n)
  moreover have "row_get latest ''Close'' = Inr (cell_at closes (length vs - 1))"
    "row_get latest ''Open'' = Inr (cell_at opens (length vs - 1))"
    "row_get latest ''OBV'' = Inr (cell_at obvs (length vs - 1))"
    "row_get latest ''OBV_EMA'' = Inr (cell_at emas (length vs - 1))"
    "row_get latest ''MFI'' = Inr (cell_at mfis (length vs - 1))"
    by (simp_all add: r df_get_set_col n closes opens)
  ultimately show ?thesis
    using ind l by blast
qed

text \<open>
  C5. On a frame with distinct labels, at least one bar and a numeric volume column, where
  the library returns series for OBV, its EMA of length 20 and MFI of length 14 and the
  cells read at the latest bar hold floats, the smart-money scorer returns the score
  clamp(50 + 15[RVOL > 1.5 and close > open] - 15[RVOL > 1.5 and close < open]
  + 10[OBV > OBV_EMA] - 10[MFI > 80] + 10[MFI < 20], 0, 100), the comparisons being those
  of floats (false on NaN). RVOL is the latest volume divided by the mean of the last 50
  volumes, and NaN with fewer than 50 bars, where no volume rule fires. When the values
  are numbers the comparisons are those of the numbers. With close equal to open neither
  volume rule fires, the two MFI branches exclude each other, and the score is in [0,100]
  (also for every other input on which the scorer returns).
\<close>

theorem smart_money_formula:
  assumes dist: "distinct (columns df0)"
    and n: "n_index df0 = length vs" and ne: "vs \<noteq> []"
    and volume: "df_get df0 ''Volume'' = Inr (map Num vs)"
    and closes: "df_get df0 ''Close'' = Inr closes"
    and opens: "df_get df0 ''Open'' = Inr opens"
    and highs: "df_get df0 ''High'' = Inr highs"
    and lows: "df_get df0 ''Low'' = Inr lows"
    and obvs: "ta_obv ta closes (map Num vs) = Some obvs"
    and emas: "ta_ema ta obvs 20 = Some emas"
    and mfis: "ta_mfi ta highs lows closes (map Num vs) 14 = Some mfis"
    and c: "cell_at closes (length vs - 1) = c" "is_float c"
    and opn: "cell_at opens (length vs - 1) = opn" "is_float opn"
    and obv: "cell_at obvs (length vs - 1) = obv" "is_float obv"
    and obv_ema: "cell_at emas (length vs - 1) = obv_ema" "is_float obv_ema"
    and mfi: "cell_at mfis (length vs - 1) = mfi" "is_float mfi"
    and rvol: "rvol = (if length vs < 50 then NaN
                       else cell_div (Num (last vs))
                              (Num (sum_list (drop (length vs - 50) vs) / 50)))"
  shows "\<exists>score signals df.
      calculate_smart_money ta df0 = Inr ((score, signals), df)
    \<and> score = max 0 (min 100 (50 + 15 * of_bool (cell_lt (Num 1.5) rvol \<and> cell_lt opn c)
                                 - 15 * of_bool (cell_lt (Num 1.5) rvol \<and> cell_lt c opn)
                                 + 10 * of_bool (cell_lt obv_ema obv)
                                 - 10 * of_bool (cell_lt (Num 80) mfi)
                                 + 10 * of_bool (cell_lt mfi (Num 20))))
    \<and> signals = (if cell_lt (Num 1.5) rvol \<and> cell_lt opn c then [VolumeSpikeUp]
                  else if cell_lt (Num 1.5) rvol \<and> cell_lt c opn then [VolumeSpikeDown] else [])
          @ (if cell_lt obv_ema obv then [OBVAboveEMA] else [])
          @ (if cell_lt (Num 80) mfi then [MFIOverheated]
             else if cell_lt mfi (Num 20) then [MFIOversold] else [])
    \<and> (\<forall>cr orr x y z.
          50 \<le> length vs \<and> sum_list (drop (length vs - 50) vs) \<noteq> 0
          \<and> c = Num cr \<and> opn = Num orr \<and> obv = Num x \<and> obv_ema = Num y \<and> mfi = Num z \<longrightarrow>
          score = max 0 (min 100 (50
              + 15 * of_bool (last vs / (sum_list (drop (length vs - 50) vs) / 50) > 1.5 \<and> cr > orr)
              - 15 * of_bool (last vs / (sum_list (drop (length vs - 50) vs) / 50) > 1.5 \<and> cr < orr)
              + 10 * of_bool (x > y)
              - 10 * of_bool (z > 80)
              + 10 * of_bool (z < 20)))
          \<and> signals =
              (if last vs / (sum_list (drop (length vs - 50) vs) / 50) > 1.5 \<and> cr > orr
               then [VolumeSpikeUp]
               else if last vs / (sum_list (drop (length vs - 50) vs) / 50) > 1.5 \<and> cr < orr
               then [VolumeSpikeDown] else [])
              @ (if x > y then [OBVAboveEMA] else [])
              @ (if z > 80 then [MFIOverheated] else if z < 20 then [MFIOversold] else []))
    \<and> (length vs < 50 \<longrightarrow> VolumeSpikeUp \<notin> set signals \<and> VolumeSpikeDown \<notin> set signals)
    \<and> (c = opn \<longrightarrow> VolumeSpikeUp \<notin> set signals \<and> VolumeSpikeDown \<notin> set signals)
    \<and> \<not> (MFIOverheated \<in> set signals \<and> MFIOversold \<in> set signals)
    \<and> 0 \<le> score \<and> score \<le> 100
    \<and> (\<forall>ta' df' sc sg d. calculate_smart_money ta' df' = Inr ((sc, sg), d)
           \<longrightarrow> 0 \<le> sc \<and> sc \<le> 100)"
proof -
  from smart_money_run [OF dist n ne volume closes opens highs lows obvs emas mfis]
  obtain df latest where ind: "smart_money_indicators ta df0 = Inr df"
    and latest: "iloc_neg df 1 = Inr latest"
    and r: "row_get latest ''RVOL'' = Inr (cell_div (Num (last vs)) (window_mean 50 (map Num vs)))"
      "row_get latest ''Close'' = Inr (cell_at closes (length vs - 1))"
      "row_get latest ''Open'' = Inr (cell_at opens (length vs - 1))"
      "row_get latest ''OBV'' = Inr (cell_at obvs (length vs - 1))"
      "row_get latest ''OBV_EMA'' = Inr (cell_at emas (length vs - 1))"
      "row_get latest ''MFI'' = Inr (cell_at mfis (length vs - 1))"
    by blast
  have rv: "cell_div (Num (last vs)) (window_mean 50 (map Num vs)) = rvol"
    by (simp add: rvol window_mean_Num)
  have fr: "is_float rvol"
    unfolding rv [symmetric] is_float_def by (rule cell_div_Num_notNone)
  note sc = smart_money_score_float [OF r(1) [unfolded rv] fr r(2) [unfolded c(1)] c(2)
      r(3) [unfolded opn(1)] opn(2) r(4) [unfolded obv(1)] obv(2)
      r(5) [unfolded obv_ema(1)] obv_ema(2) r(6) [unfolded mfi(1)] mfi(2)]
  let ?score = "max 0 (min 100 (50 + 15 * of_bool (cell_lt (Num 1.5) rvol \<and> cell_lt opn c)
                                 - 15 * of_bool (cell_lt (Num 1.5) rvol \<and> cell_lt c opn)
                                 + 10 * of_bool (cell_lt obv_ema obv)
                                 - 10 * of_bool (cell_lt (Num 80) mfi)
                                 + 10 * of_bool (cell_lt mfi (Num 20)))) :: int"
  let ?signals = "(if cell_lt (Num 1.5) rvol \<and> cell_lt opn c then [VolumeSpikeUp]
                  else if cell_lt (Num 1.5) rvol \<and> cell_lt c opn then [VolumeSpikeDown] else [])
          @ (if cell_lt obv_ema obv then [OBVAboveEMA] else [])
          @ (if cell_lt (Num 80) mfi then [MFIOverheated]
             else if cell_lt mfi (Num 20) then [MFIOversold] else [])"
  have run: "calculate_smart_money ta df0 = Inr ((?score, ?signals), df)"
    unfolding calculate_smart_money_def
    using latest by (simp add: ind sc)
  have num: "?score = max 0 (min 100 (50
              + 15 * of_bool (last vs / (sum_list (drop (length vs - 50) vs) / 50) > 1.5 \<and> cr > orr)
              - 15 * of_bool (last vs / (sum_list (drop (length vs - 50) vs) / 50) > 1.5 \<and> cr < orr)
              + 10 * of_bool (x > y)
              - 10 * of_bool (z > 80)
              + 10 * of_bool (z < 20)))
          \<and> ?signals =
              (if last vs / (sum_list (drop (length vs - 50) vs) / 50) > 1.5 \<and> cr > orr
               then [VolumeSpikeUp]
               else if last vs / (sum_list (drop (length vs - 50) vs) / 50) > 1.5 \<and> cr < orr
               then [VolumeSpikeDown] else [])
              @ (if x > y then [OBVAboveEMA] else [])
              @ (if z > 80 then [MFIOverheated] else if z < 20 then [MFIOversold] else [])"
    if h: "50 \<le> length vs \<and> sum_list (drop (length vs - 50) vs) \<noteq> 0
          \<and> c = Num cr \<and> opn = Num orr \<and> obv = Num x \<and> obv_ema = Num y \<and> mfi = Num z"
    for cr orr x y z
  proof -
    from h have "rvol = Num (last vs / (sum_list (drop (length vs - 50) vs) / 50))"
      by (simp add: rvol)
    with h show ?thesis
      by simp
  qed
  have short: "VolumeSpikeUp \<notin> set ?signals \<and> VolumeSpikeDown \<notin> set ?signals"
    if "length vs < 50"
    using that by (simp add: rvol)
  have eq: "VolumeSpikeUp \<notin> set ?signals \<and> VolumeSpikeDown \<notin> set ?signals" if "c = opn"
    using that by simp
  have excl: "\<not> (MFIOverheated \<in> set ?signals \<and> MFIOversold \<in> set ?signals)"
    by simp
  have bounds: "0 \<le> ?score \<and> ?score \<le> 100"
    by simp
  have all: "\<forall>ta' df' sc sg d. calculate_smart_money ta' df' = Inr ((sc, sg), d)
           \<longrightarrow> 0 \<le> sc \<and> sc \<le> 100"
    using calculate_smart_money_bounds by blast
  show ?thesis
    apply (rule exI [of _ ?score], rule exI [of _ ?signals], rule exI [of _ df])
    apply (intro conjI)
             apply (rule run)
            apply (rule refl)
           apply (rule refl)
          apply (use num in blast)
         apply (use short in blast)
        apply (use eq in blast)
       apply (rule excl)
      apply (use bounds in blast)
     apply (use bounds in blast)
    apply (rule all)
    done
qed

theorem smart_money_formula_witness:
  "last (replicate 49 100 @ [200 :: real])
      / (sum_list (drop (length (replicate 49 (100 :: real) @ [200]) - 50)
                        (replicate 49 100 @ [200])) / 50) = 100 / 51
   \<and> (case calculate_smart_money ex_ta ex_bars50 of
      Inl e \<Rightarrow> False
    | Inr ((score, signals), df) \<Rightarrow> score = 85
        \<and> signals = [VolumeSpikeUp, OBVAboveEMA, MFIOversold])
   \<and> last (replicate 50 (100 :: real))
      / (sum_list (drop (length (replicate 50 (100 :: real)) - 50) (replicate 50 100)) / 50) = 1
   \<and> (case calculate_smart_money ex_ta ex_bars50_flat of
      Inl e \<Rightarrow> False
    | Inr ((score, signals), df) \<Rightarrow> score = 70
        \<and> signals = [OBVAboveEMA, MFIOversold])"
proof -
  have fl: "is_float (Num 10)" "is_float (Num 9)" "is_float (Num 300)" "is_float (Num 200)"
    by (simp_all add: is_float_def)
  have run: "case calculate_smart_money ex_ta df of
      Inl e \<Rightarrow> False
    | Inr ((score, signals), d) \<Rightarrow>
        score = max 0 (min 100 (50
              + 15 * of_bool (last vs / (sum_list (drop (length vs - 50) vs) / 50) > 1.5 \<and> (10::real) > 9)
              - 15 * of_bool (last vs / (sum_list (drop (length vs - 50) vs) / 50) > 1.5 \<and> (10::real) < 9)
              + 10 * of_bool ((300::real) > 200)
              - 10 * of_bool ((10::real) > 80)
              + 10 * of_bool ((10::real) < 20)))
        \<and> signals =
              (if last vs / (sum_list (drop (length vs - 50) vs) / 50) > 1.5 \<and> (10::real) > 9
               then [VolumeSpikeUp]
               else if last vs / (sum_list (drop (length vs - 50) vs) / 50) > 1.5 \<and> (10::real) < 9
               then [VolumeSpikeDown] else [])
              @ (if (300::real) > 200 then [OBVAboveEMA] else [])
              @ (if (10::real) > 80 then [MFIOverheated]
                 else if (10::real) < 20 then [MFIOversold] else [])"
    if df: "df = \<lparr>n_index = 50, cols =
       [(''Open'', replicate 50 (Num 9)), (''High'', replicate 50 (Num 12)),
        (''Low'', replicate 50 (Num 8)), (''Close'', replicate 50 (Num 10)),
        (''Volume'', map Num vs)]\<rparr>"
      and len: "length vs = 50" and nz: "sum_list (drop (length vs - 50) vs) \<noteq> 0"
    for df and vs :: "real list"
  proof -
    let ?obvs = "map (\<lambda>c. Num 300) (map Num vs)"
    from len have ne: "vs \<noteq> []"
      by auto
    have h: "distinct (columns df)"
      "n_index df = length vs"
      "df_get df ''Volume'' = Inr (map Num vs)"
      "df_get df ''Close'' = Inr (replicate 50 (Num 10))"
      "df_get df ''Open'' = Inr (replicate 50 (Num 9))"
      "df_get df ''High'' = Inr (replicate 50 (Num 12))"
      "df_get df ''Low'' = Inr (replicate 50 (Num 8))"
      by (simp_all add: df len columns_def df_get_def)
    have lib: "ta_obv ex_ta (replicate 50 (Num 10)) (map Num vs) = Some ?obvs"
      "ta_ema ex_ta ?obvs 20 = Some (map (\<lambda>c. Num 200) ?obvs)"
      "ta_mfi ex_ta (replicate 50 (Num 12)) (replicate 50 (Num 8)) (replicate 50 (Num 10))
         (map Num vs) 14 = Some (map (\<lambda>c. Num 10) (map Num vs))"
      by (simp_all add: ex_ta_def)
    have cells: "cell_at (replicate 50 (Num 10)) (length vs - 1) = Num 10"
      "cell_at (replicate 50 (Num 9)) (length vs - 1) = Num 9"
      "cell_at ?obvs (length vs - 1) = Num 300"
      "cell_at (map (\<lambda>c. Num 200) ?obvs) (length vs - 1) = Num 200"
      "cell_at (map (\<lambda>c. Num 10) (map Num vs)) (length vs - 1) = Num 10"
      by (simp_all add: cell_at_def len)
    from smart_money_formula [OF h(1,2) ne h(3-7) lib cells(1) fl(1) cells(2) fl(2)
        cells(3) fl(3) cells(4) fl(4) cells(5) fl(1) refl]
    obtain score signals d where r: "calculate_smart_money ex_ta df = Inr ((score, signals), d)"
      and num: "\<forall>cr orr x y z.
          50 \<le> length vs \<and> sum_list (drop (length vs - 50) vs) \<noteq> 0
          \<and> Num 10 = Num cr \<and> Num 9 = Num orr \<and> Num 300 = Num x \<and> Num 200 = Num y
          \<and> Num 10 = Num z \<longrightarrow>
          score = max 0 (min 100 (50
              + 15 * of_bool (last vs / (sum_list (drop (length vs - 50) vs) / 50) > 1.5 \<and> cr > orr)
              - 15 * of_bool (last vs / (sum_list (drop (length vs - 50) vs) / 50) > 1.5 \<and> cr < orr)
              + 10 * of_bool (x > y)
              - 10 * of_bool (z > 80)
              + 10 * of_bool (z < 20)))
          \<and> signals =
              (if last vs / (sum_list (drop (length vs - 50) vs) / 50) > 1.5 \<and> cr > orr
               then [VolumeSpikeUp]
               else if last vs / (sum_list (drop (length vs - 50) vs) / 50) > 1.5 \<and> cr < orr
               then [VolumeSpikeDown] else [])
              @ (if x > y then [OBVAboveEMA] else [])
              @ (if z > 80 then [MFIOverheated] else if z < 20 then [MFIOversold] else [])"
      by blast
    from num [rule_format, of 10 9 300 200 10] len nz r show ?thesis
      by simp
  qed
  have a: "ex_bars50 = \<lparr>n_index = 50, cols =
       [(''Open'', replicate 50 (Num 9)), (''High'', replicate 50 (Num 12)),
        (''Low'', replicate 50 (Num 8)), (''Close'', replicate 50 (Num 10)),
        (''Volume'', map Num (replicate 49 100 @ [200]))]\<rparr>"
    by (simp add: ex_bars50_def)
  have b: "ex_bars50_flat = \<lparr>n_index = 50, cols =
       [(''Open'', replicate 50 (Num 9)), (''High'', replicate 50 (Num 12)),
        (''Low'', replicate 50 (Num 8)), (''Close'', replicate 50 (Num 10)),
        (''Volume'', map Num (replicate 50 100))]\<rparr>"
    by (simp add: ex_bars50_flat_def)
  from run [OF a] run [OF b] show ?thesis
    by (auto simp: sum_list_replicate split: sum.splits)
qed

section \<open>The rules on missing and on crossing values\<close>

lemma py_cmp_NaN [simp]:
  "py_gt NaN (Num x) = Inr False" "py_lt NaN (Num x) = Inr False"
  "py_gt NaN NaN = Inr False" "py_lt (Num x) NaN = Inr False" "py_gt (Num x) NaN = Inr False"
  by (simp_all add: py_gt_def py_lt_def py_cmp_def)

lemma technical_indicators_n_index:
  assumes "technical_indicators ta ws wl df0 = Inr (da, df)"
  shows "n_index df = n_index df0" and "n_index da = n_index df0"
  using technical_indicators_shape [OF assms] by auto

lemma smart_money_indicators_n_index:
  assumes "smart_money_indicators ta df0 = Inr df"
  shows "n_index df = n_index df0"
  using smart_money_indicators_shape [OF assms] by auto

lemma rule_reasons:
  "rule_trend latest st = Inr st' \<Longrightarrow> \<exists>xs. snd st' = snd st @ xs \<and> set xs \<subseteq> {PriceAboveLongSMA}"
  "rule_rsi latest st = Inr st' \<Longrightarrow> \<exists>xs. snd st' = snd st @ xs \<and> set xs \<subseteq> {RSIOversold, RSIOverbought}"
  "rule_bollinger cs latest st = Inr st' \<Longrightarrow> \<exists>xs. snd st' = snd st @ xs \<and> set xs \<subseteq> {BelowLowerBollinger}"
  unfolding rule_trend_def rule_rsi_def rule_bollinger_def
  by (auto simp: ebind_eq_Inr split: if_splits)

lemma rule_macd_steps:
  assumes "rule_macd cs latest prev st = Inr st'"
  shows "st' = st \<or> st' = (fst st + 15, snd st @ [MACDGoldenCross])"
  using assms unfolding rule_macd_def
  by (auto simp: ebind_eq_Inr split: if_splits)


lemma iloc_neg_short: "n_index df < k \<Longrightarrow> iloc_neg df k = Inl IndexError"
  by (simp add: iloc_neg_def)

text \<open>
  C6. With the MACD column in the frame and numbers for the line and the signal at the
  latest and the previous bar, the golden-cross rule adds 15 and appends its reason exactly
  when line[latest] > signal[latest] and line[prev] <= signal[prev]; otherwise it leaves
  score and reasons as they are. Line equal to signal on both bars does not fire, a death
  cross (line below signal now, at or above it before) changes nothing, the reason is in
  the list the scorer returns exactly when the cross holds, and on no input does the rule
  lower the score.
\<close>

theorem macd_golden_cross:
  assumes col: "''MACD_12_26_9'' \<in> set cs"
    and macd: "row_get latest ''MACD_12_26_9'' = Inr (Num l)"
    and macds: "row_get latest ''MACDs_12_26_9'' = Inr (Num s)"
    and pmacd: "row_get prev ''MACD_12_26_9'' = Inr (Num pl)"
    and pmacds: "row_get prev ''MACDs_12_26_9'' = Inr (Num ps)"
  shows "(rule_macd cs latest prev st = Inr (fst st + 15, snd st @ [MACDGoldenCross])
            \<longleftrightarrow> l > s \<and> pl \<le> ps)
    \<and> (rule_macd cs latest prev st = Inr st \<longleftrightarrow> \<not> (l > s \<and> pl \<le> ps))
    \<and> (l = s \<and> pl = ps \<longrightarrow> rule_macd cs latest prev st = Inr st)
    \<and> (l < s \<and> pl \<ge> ps \<longrightarrow> rule_macd cs latest prev st = Inr st)
    \<and> (\<forall>sc rs. technical_score cs latest prev = Inr (sc, rs)
          \<longrightarrow> (MACDGoldenCross \<in> set rs \<longleftrightarrow> l > s \<and> pl \<le> ps))
    \<and> (\<forall>cs' latest' prev' st'. rule_macd cs' latest' prev' st = Inr st'
          \<longrightarrow> fst st' = fst st \<or> fst st' = fst st + 15)"
proof -
  note r = rule_macd_Num [OF col macd macds pmacd pmacds]
  have score: "MACDGoldenCross \<in> set rs \<longleftrightarrow> l > s \<and> pl \<le> ps"
    if ts: "technical_score cs latest prev = Inr (sc, rs)" for sc rs
  proof -
    from ts obtain st1 st2 st3 st4 where
      a1: "rule_trend latest (50, []) = Inr st1" and a2: "rule_rsi latest st1 = Inr st2"
      and a3: "rule_macd cs latest prev st2 = Inr st3" and a4: "rule_bollinger cs latest st3 = Inr st4"
      and rs: "rs = snd st4"
      unfolding technical_score_def by (auto simp: ebind_eq_Inr)
    from rule_reasons(1) [OF a1] obtain xs1 where x1: "snd st1 = xs1" "set xs1 \<subseteq> {PriceAboveLongSMA}"
      by auto
    from rule_reasons(2) [OF a2] obtain xs2 where x2: "snd st2 = snd st1 @ xs2"
      "set xs2 \<subseteq> {RSIOversold, RSIOverbought}"
      by auto
    from rule_reasons(3) [OF a4] obtain xs4 where x4: "snd st4 = snd st3 @ xs4"
      "set xs4 \<subseteq> {BelowLowerBollinger}"
      by auto
    have a3': "st3 = (if l > s \<and> pl \<le> ps then (fst st2 + 15, snd st2 @ [MACDGoldenCross]) else st2)"
      using a3 by (simp add: rule_macd_Num [OF col macd macds pmacd pmacds])
    have "MACDGoldenCross \<notin> set xs1" "MACDGoldenCross \<notin> set xs2" "MACDGoldenCross \<notin> set xs4"
      using x1(2) x2(2) x4(2) by auto
    then show ?thesis
      by (simp add: rs x4(1) a3' x2(1) x1(1))
  qed
  have steps: "\<forall>cs' latest' prev' st'. rule_macd cs' latest' prev' st = Inr st'
          \<longrightarrow> fst st' = fst st \<or> fst st' = fst st + 15"
    using rule_macd_steps by fastforce
  show ?thesis
    apply (intro conjI)
         apply (simp add: r prod_eq_iff)
        apply (simp add: r prod_eq_iff)
       apply (simp add: r)
      apply (simp add: r)
     apply (use score in blast)
    apply (rule steps)
    done
qed

theorem macd_golden_cross_witness:
  "rule_macd [''MACD_12_26_9'', ''MACDs_12_26_9'']
      [(''MACD_12_26_9'', Num 1), (''MACDs_12_26_9'', Num 0)]
      [(''MACD_12_26_9'', Num 0), (''MACDs_12_26_9'', Num 0)] (50, [])
    = Inr (65, [MACDGoldenCross])
   \<and> rule_macd [''MACD_12_26_9'', ''MACDs_12_26_9'']
      [(''MACD_12_26_9'', Num 1), (''MACDs_12_26_9'', Num 1)]
      [(''MACD_12_26_9'', Num 1), (''MACDs_12_26_9'', Num 1)] (50, [])
    = Inr (50, [])"
proof -
  have a: "''MACD_12_26_9'' \<in> set [''MACD_12_26_9'', ''MACDs_12_26_9'']"
    by simp
  have b: "row_get [(''MACD_12_26_9'', Num 1), (''MACDs_12_26_9'', Num 0)] ''MACD_12_26_9'' = Inr (Num 1)"
    "row_get [(''MACD_12_26_9'', Num 1), (''MACDs_12_26_9'', Num 0)] ''MACDs_12_26_9'' = Inr (Num 0)"
    "row_get [(''MACD_12_26_9'', Num 0), (''MACDs_12_26_9'', Num 0)] ''MACD_12_26_9'' = Inr (Num 0)"
    "row_get [(''MACD_12_26_9'', Num 0), (''MACDs_12_26_9'', Num 0)] ''MACDs_12_26_9'' = Inr (Num 0)"
    by (simp_all add: row_get_def)
  have c: "row_get [(''MACD_12_26_9'', Num 1), (''MACDs_12_26_9'', Num 1)] ''MACD_12_26_9'' = Inr (Num 1)"
    "row_get [(''MACD_12_26_9'', Num 1), (''MACDs_12_26_9'', Num 1)] ''MACDs_12_26_9'' = Inr (Num 1)"
    by (simp_all add: row_get_def)
  from macd_golden_cross [OF a b, of "(50, [])"]
    macd_golden_cross [OF a c c, of "(50, [])"]
  show ?thesis
    by simp
qed


text \<open>
  C10. When the frame has no column MACD_12_26_9, the MACD rule returns score and reasons
  unchanged and raises nothing; likewise the Bollinger rule when BBL_20_2.0 is absent.
  The score is then computed by the remaining rules alone, and with both columns absent
  the scorer returns what the trend and RSI rules give.
\<close>

theorem absent_columns_skipped:
  "(''MACD_12_26_9'' \<notin> set cs \<longrightarrow> rule_macd cs latest prev st = Inr st)
   \<and> (''BBL_20_2.0'' \<notin> set cs \<longrightarrow> rule_bollinger cs latest st = Inr st)
   \<and> (''MACD_12_26_9'' \<notin> set cs \<longrightarrow>
        technical_score cs latest prev =
          ebind (rule_trend latest (50, [])) (\<lambda>st1.
          ebind (rule_rsi latest st1) (\<lambda>st2.
          ebind (rule_bollinger cs latest st2) (\<lambda>st4.
          Inr (max 0 (min 100 (fst st4)), snd st4)))))
   \<and> (''BBL_20_2.0'' \<notin> set cs \<longrightarrow>
        technical_score cs latest prev =
          ebind (rule_trend latest (50, [])) (\<lambda>st1.
          ebind (rule_rsi latest st1) (\<lambda>st2.
          ebind (rule_macd cs latest prev st2) (\<lambda>st3.
          Inr (max 0 (min 100 (fst st3)), snd st3)))))
   \<and> (technical_indicators ta ws wl df0 = Inr (df_arg, df)
        \<and> iloc_neg df 1 = Inr latest \<and> iloc_neg df 2 = Inr prev
        \<and> ''MACD_12_26_9'' \<notin> set (columns df) \<and> ''BBL_20_2.0'' \<notin> set (columns df) \<longrightarrow>
        calculate_technical_strategy ta ws wl df0 =
          ebind (rule_trend latest (50, [])) (\<lambda>st1.
          ebind (rule_rsi latest st1) (\<lambda>st2.
          Inr ((max 0 (min 100 (fst st2)), snd st2, df), df_arg))))"
proof (intro conjI impI)
  show "rule_macd cs latest prev st = Inr st" if "''MACD_12_26_9'' \<notin> set cs"
    using that by (rule rule_macd_absent)
  show "rule_bollinger cs latest st = Inr st" if "''BBL_20_2.0'' \<notin> set cs"
    using that by (rule rule_bollinger_absent)
  show "technical_score cs latest prev =
          ebind (rule_trend latest (50, [])) (\<lambda>st1.
          ebind (rule_rsi latest st1) (\<lambda>st2.
          ebind (rule_bollinger cs latest st2) (\<lambda>st4.
          Inr (max 0 (min 100 (fst st4)), snd st4))))" if "''MACD_12_26_9'' \<notin> set cs"
    unfolding technical_score_def by (simp add: rule_macd_absent [OF that])
  show "technical_score cs latest prev =
          ebind (rule_trend latest (50, [])) (\<lambda>st1.
          ebind (rule_rsi latest st1) (\<lambda>st2.
          ebind (rule_macd cs latest prev st2) (\<lambda>st3.
          Inr (max 0 (min 100 (fst st3)), snd st3))))" if "''BBL_20_2.0'' \<notin> set cs"
    unfolding technical_score_def by (simp add: rule_bollinger_absent [OF that])
  assume h: "technical_indicators ta ws wl df0 = Inr (df_arg, df)
        \<and> iloc_neg df 1 = Inr latest \<and> iloc_neg df 2 = Inr prev
        \<and> ''MACD_12_26_9'' \<notin> set (columns df) \<and> ''BBL_20_2.0'' \<notin> set (columns df)"
  then have m: "''MACD_12_26_9'' \<notin> set (columns df)" and b: "''BBL_20_2.0'' \<notin> set (columns df)"
    by simp_all
  have "technical_score (columns df) latest prev =
          ebind (rule_trend latest (50, [])) (\<lambda>st1.
          ebind (rule_rsi latest st1) (\<lambda>st2.
          Inr (max 0 (min 100 (fst st2)), snd st2)))"
    unfolding technical_score_def
    by (simp add: rule_macd_absent [OF m] rule_bollinger_absent [OF b])
  then show "calculate_technical_strategy ta ws wl df0 =
          ebind (rule_trend latest (50, [])) (\<lambda>st1.
          ebind (rule_rsi latest st1) (\<lambda>st2.
          Inr ((max 0 (min 100 (fst st2)), snd st2, df), df_arg)))"
    unfolding calculate_technical_strategy_def using h
    by (simp add: ebind_def split: sum.splits)
qed

theorem absent_columns_skipped_witness:
  "(case calculate_technical_strategy ta_short 20 50 ex_bars14 of
      Inl e \<Rightarrow> False
    | Inr ((score, reasons, df), df_arg) \<Rightarrow>
        ''MACD_12_26_9'' \<notin> set (columns df) \<and> ''BBL_20_2.0'' \<notin> set (columns df)
        \<and> score = 50 \<and> reasons = [])"
proof -
  have "case technical_indicators ta_short 20 50 ex_bars14 of
      Inl e \<Rightarrow> False
    | Inr p \<Rightarrow> (case iloc_neg (snd p) 1 of
        Inl e \<Rightarrow> False
      | Inr latest \<Rightarrow> (case iloc_neg (snd p) 2 of
          Inl e \<Rightarrow> False
        | Inr prev \<Rightarrow> ''MACD_12_26_9'' \<notin> set (columns (snd p))
          \<and> ''BBL_20_2.0'' \<notin> set (columns (snd p))
          \<and> rule_trend latest (50, []) = Inr (50, [])
          \<and> rule_rsi latest (50, []) = Inr (50, [])))"
    by code_simp
  then obtain p latest prev where "technical_indicators ta_short 20 50 ex_bars14 = Inr p"
    and h: "iloc_neg (snd p) 1 = Inr latest" "iloc_neg (snd p) 2 = Inr prev"
    "''MACD_12_26_9'' \<notin> set (columns (snd p))" "''BBL_20_2.0'' \<notin> set (columns (snd p))"
    and r: "rule_trend latest (50, []) = Inr (50, [])" "rule_rsi latest (50, []) = Inr (50, [])"
    by (elim sum_case_FalseE conjE) blast
  then have ind: "technical_indicators ta_short 20 50 ex_bars14 = Inr (fst p, snd p)"
    by simp
  from absent_columns_skipped [of "columns (snd p)" latest prev "(50, [])" ta_short 20 50
      ex_bars14 "fst p" "snd p"]
  show ?thesis
    using ind h r by simp
qed


text \<open>
  C1, as the program has it. Neither scorer has a failure for insufficient data. With
  fewer than two bars the technical scorer raises IndexError, and so does the smart-money
  scorer with no bar. An indicator value that is NaN at the latest bar makes every
  comparison on it false, so the rule that reads it does not fire: when the values the
  rules read are all NaN, each scorer returns the base score 50 with no reason.
\<close>

theorem insufficient_data_behaviour:
  "(technical_indicators ta ws wl df0 = Inr (df_arg, df) \<and> n_index df0 < 2 \<longrightarrow>
      calculate_technical_strategy ta ws wl df0 = Inl IndexError)
   \<and> (smart_money_indicators ta df3 = Inr df3' \<and> n_index df3 = 0 \<longrightarrow>
      calculate_smart_money ta df3 = Inl IndexError)
   \<and> (technical_indicators ta ws wl df1 = Inr (df1_arg, df1_new)
        \<and> iloc_neg df1_new 1 = Inr latest \<and> iloc_neg df1_new 2 = Inr prev
        \<and> row_get latest ''SMA_Long'' = Inr NaN
        \<and> row_get latest ''Close'' = Inr (Num c)
        \<and> row_get latest ''RSI'' = Inr NaN
        \<and> row_get latest ''MACD_12_26_9'' = Inr NaN
        \<and> row_get latest ''MACDs_12_26_9'' = Inr NaN
        \<and> row_get prev ''MACD_12_26_9'' = Inr pl
        \<and> row_get prev ''MACDs_12_26_9'' = Inr ps
        \<and> row_get latest ''BBL_20_2.0'' = Inr NaN \<longrightarrow>
      calculate_technical_strategy ta ws wl df1 = Inr ((50, [], df1_new), df1_arg))
   \<and> (smart_money_indicators ta df2 = Inr df2'
        \<and> iloc_neg df2' 1 = Inr latest2
        \<and> row_get latest2 ''RVOL'' = Inr NaN
        \<and> row_get latest2 ''OBV'' = Inr NaN
        \<and> row_get latest2 ''OBV_EMA'' = Inr NaN
        \<and> row_get latest2 ''MFI'' = Inr NaN \<longrightarrow>
      calculate_smart_money ta df2 = Inr ((50, []), df2'))"
proof (intro conjI impI)
  assume h: "technical_indicators ta ws wl df0 = Inr (df_arg, df) \<and> n_index df0 < 2"
  then have n: "n_index df < 2"
    using technical_indicators_n_index(1) [of ta ws wl df0 df_arg df] by simp
  show "calculate_technical_strategy ta ws wl df0 = Inl IndexError"
  proof (cases "iloc_neg df 1")
    case (Inl e)
    then have "e = IndexError"
      by (simp add: iloc_neg_def split: if_splits)
    with Inl h show ?thesis
      unfolding calculate_technical_strategy_def by simp
  next
    case (Inr latest)
    with h iloc_neg_short [OF n] show ?thesis
      unfolding calculate_technical_strategy_def by simp
  qed
next
  assume h: "smart_money_indicators ta df3 = Inr df3' \<and> n_index df3 = 0"
  then have "n_index df3' < 1"
    using smart_money_indicators_n_index [of ta df3 df3'] by simp
  from iloc_neg_short [OF this] h show "calculate_smart_money ta df3 = Inl IndexError"
    unfolding calculate_smart_money_def by simp
next
  assume h: "technical_indicators ta ws wl df1 = Inr (df1_arg, df1_new)
        \<and> iloc_neg df1_new 1 = Inr latest \<and> iloc_neg df1_new 2 = Inr prev
        \<and> row_get latest ''SMA_Long'' = Inr NaN
        \<and> row_get latest ''Close'' = Inr (Num c)
        \<and> row_get latest ''RSI'' = Inr NaN
        \<and> row_get latest ''MACD_12_26_9'' = Inr NaN
        \<and> row_get latest ''MACDs_12_26_9'' = Inr NaN
        \<and> row_get prev ''MACD_12_26_9'' = Inr pl
        \<and> row_get prev ''MACDs_12_26_9'' = Inr ps
        \<and> row_get latest ''BBL_20_2.0'' = Inr NaN"
  then have a: "rule_trend latest (50, []) = Inr (50, [])"
    by (simp add: rule_trend_def)
  from h have b: "rule_rsi latest (50, []) = Inr (50, [])"
    by (simp add: rule_rsi_def)
  from h have c: "rule_macd (columns df1_new) latest prev (50, []) = Inr (50, [])"
    by (simp add: rule_macd_def)
  from h have d: "rule_bollinger (columns df1_new) latest (50, []) = Inr (50, [])"
    by (simp add: rule_bollinger_def)
  have "technical_score (columns df1_new) latest prev = Inr (50, [])"
    unfolding technical_score_def by (simp add: a b c d)
  with h show "calculate_technical_strategy ta ws wl df1 = Inr ((50, [], df1_new), df1_arg)"
    unfolding calculate_technical_strategy_def by simp
next
  assume h: "smart_money_indicators ta df2 = Inr df2'
        \<and> iloc_neg df2' 1 = Inr latest2
        \<and> row_get latest2 ''RVOL'' = Inr NaN
        \<and> row_get latest2 ''OBV'' = Inr NaN
        \<and> row_get latest2 ''OBV_EMA'' = Inr NaN
        \<and> row_get latest2 ''MFI'' = Inr NaN"
  then have a: "rule_volume latest2 (50, []) = Inr (50, [])"
    by (simp add: rule_volume_def)
  from h have b: "rule_obv latest2 (50, []) = Inr (50, [])"
    by (simp add: rule_obv_def)
  from h have c: "rule_mfi latest2 (50, []) = Inr (50, [])"
    by (simp add: rule_mfi_def)
  have "smart_money_score latest2 = Inr (50, [])"
    unfolding smart_money_score_def by (simp add: a b c)
  with h show "calculate_smart_money ta df2 = Inr ((50, []), df2')"
    unfolding calculate_smart_money_def by simp
qed


text \<open>
  Fourteen bars are fewer than the long window of 50; the long average is \<open>None\<close> and
  RSI is NaN at every bar: the technical scorer returns 50 with no reason. On two bars,
  with every indicator NaN, the smart-money scorer returns 50 with no signal.
\<close>

theorem insufficient_data_counterexample:
  "n_index ex_bars14 = 14
   \<and> calculate_technical_strategy ta_short 20 50 ex_bars14
       = Inr ((50, [], ex_bars14_tech), ex_bars14_tech)
   \<and> n_index ex_bars2 = 2
   \<and> calculate_smart_money ta_nan ex_bars2 = Inr ((50, []), ex_bars2_sm)"
  by code_simp

theorem insufficient_data_behaviour_witness:
  "calculate_technical_strategy ta_nan 20 50 ex_bars1 = Inl IndexError
   \<and> calculate_smart_money ta_nan ex_bars0 = Inl IndexError
   \<and> (case calculate_technical_strategy ta_nan 20 50 ex_bars2 of
        Inl e \<Rightarrow> False
      | Inr ((score, reasons, df), df_arg) \<Rightarrow> score = 50 \<and> reasons = [])
   \<and> (case calculate_smart_money ta_nan ex_bars2 of
        Inl e \<Rightarrow> False
      | Inr ((score, signals), df) \<Rightarrow> score = 50 \<and> signals = [])"
proof -
  have "case technical_indicators ta_nan 20 50 ex_bars1 of Inl e \<Rightarrow> False | Inr p \<Rightarrow> True"
    by code_simp
  then obtain p1 where a: "technical_indicators ta_nan 20 50 ex_bars1 = Inr (fst p1, snd p1)"
    by (cases "technical_indicators ta_nan 20 50 ex_bars1") auto
  have a': "n_index ex_bars1 < 2"
    by (simp add: ex_bars1_def)
  have "case smart_money_indicators ta_nan ex_bars0 of Inl e \<Rightarrow> False | Inr p \<Rightarrow> True"
    by code_simp
  then obtain d0 where b: "smart_money_indicators ta_nan ex_bars0 = Inr d0"
    by (cases "smart_money_indicators ta_nan ex_bars0") auto
  have b': "n_index ex_bars0 = 0"
    by (simp add: ex_bars0_def)
  have "case technical_indicators ta_nan 20 50 ex_bars2 of
      Inl e \<Rightarrow> False
    | Inr p \<Rightarrow> (case iloc_neg (snd p) 1 of
        Inl e \<Rightarrow> False
      | Inr latest \<Rightarrow> (case iloc_neg (snd p) 2 of
          Inl e \<Rightarrow> False
        | Inr prev \<Rightarrow> row_get latest ''SMA_Long'' = Inr NaN
          \<and> row_get latest ''Close'' = Inr (Num 10)
          \<and> row_get latest ''RSI'' = Inr NaN
          \<and> row_get latest ''MACD_12_26_9'' = Inr NaN
          \<and> row_get latest ''MACDs_12_26_9'' = Inr NaN
          \<and> row_get prev ''MACD_12_26_9'' = Inr NaN
          \<and> row_get prev ''MACDs_12_26_9'' = Inr NaN
          \<and> row_get latest ''BBL_20_2.0'' = Inr NaN))"
    by code_simp
  then obtain p latest prev where "technical_indicators ta_nan 20 50 ex_bars2 = Inr p"
    and c: "iloc_neg (snd p) 1 = Inr latest"
    "iloc_neg (snd p) 2 = Inr prev"
    "row_get latest ''SMA_Long'' = Inr NaN"
    "row_get latest ''Close'' = Inr (Num 10)"
    "row_get latest ''RSI'' = Inr NaN"
    "row_get latest ''MACD_12_26_9'' = Inr NaN"
    "row_get latest ''MACDs_12_26_9'' = Inr NaN"
    "row_get prev ''MACD_12_26_9'' = Inr NaN"
    "row_get prev ''MACDs_12_26_9'' = Inr NaN"
    "row_get latest ''BBL_20_2.0'' = Inr NaN"
    by (elim sum_case_FalseE conjE) blast
  then have c0: "technical_indicators ta_nan 20 50 ex_bars2 = Inr (fst p, snd p)"
    by simp
  have "case smart_money_indicators ta_nan ex_bars2 of
      Inl e \<Rightarrow> False
    | Inr df \<Rightarrow> (case iloc_neg df 1 of
        Inl e \<Rightarrow> False
      | Inr latest \<Rightarrow> row_get latest ''RVOL'' = Inr NaN
          \<and> row_get latest ''OBV'' = Inr NaN
          \<and> row_get latest ''OBV_EMA'' = Inr NaN
          \<and> row_get latest ''MFI'' = Inr NaN)"
    by code_simp
  then obtain d2 latest2 where d: "smart_money_indicators ta_nan ex_bars2 = Inr d2"
    "iloc_neg d2 1 = Inr latest2"
    "row_get latest2 ''RVOL'' = Inr NaN"
    "row_get latest2 ''OBV'' = Inr NaN"
    "row_get latest2 ''OBV_EMA'' = Inr NaN"
    "row_get latest2 ''MFI'' = Inr NaN"
    by (elim sum_case_FalseE conjE) blast
  from insufficient_data_behaviour [where ta = ta_nan and ws = 20 and wl = 50
      and ?df0.0 = ex_bars1 and df_arg = "fst p1" and df = "snd p1"
      and ?df3.0 = ex_bars0 and ?df3' = d0
      and ?df1.0 = ex_bars2 and ?df1_arg = "fst p" and ?df1_new = "snd p"
      and latest = latest and prev = prev and c = 10 and pl = NaN and ps = NaN
      and ?df2.0 = ex_bars2 and ?df2' = d2 and ?latest2.0 = latest2]
  show ?thesis
    using a a' b b' c0 c d by simp
qed

section \<open>The recommendation, the sentiment and the price levels\<close>

lemma buy_zone_Some:
  assumes "buy_zone c cp = Inr bz"
  shows "bz \<noteq> None \<longleftrightarrow> c \<ge> 60"
  using assms unfolding buy_zone_def
  by (auto simp: ebind_eq_Inr split: if_splits)


text \<open>
  C3. For every composite score c the box shown is the strong buy iff c >= 70, the neutral
  one iff 50 <= c < 70 and the avoid one iff c < 50; the entry price is written iff
  c >= 60 and is then the current price times 0.98; and the list of reasons under the box
  is the reasons of the technical scorer followed by the signals of the smart-money scorer
  (run on the frame the technical scorer returned).
\<close>

theorem recommendation_and_entry:
  "(recommendation c = StrongBuy \<longleftrightarrow> c \<ge> 70)
   \<and> (recommendation c = Neutral \<longleftrightarrow> 50 \<le> c \<and> c < 70)
   \<and> (recommendation c = Avoid \<longleftrightarrow> c < 50)
   \<and> buy_zone c (Num p) = Inr (if c \<ge> 60 then Some (Num (p * 0.98)) else None)
   \<and> (analyze ta polarity_of ws wl data0 news_list = Inr rep \<longrightarrow>
        r_tier rep = recommendation (r_total_score rep)
      \<and> (r_buy_zone rep \<noteq> None \<longleftrightarrow> r_total_score rep \<ge> 60)
      \<and> (r_current_price rep = Num p \<longrightarrow>
            r_buy_zone rep = (if r_total_score rep \<ge> 60 then Some (Num (p * 0.98)) else None))
      \<and> (\<exists>tech_score tech_reasons data1 data0_after sm_score sm_signals data2.
            calculate_technical_strategy ta ws wl data0
              = Inr ((tech_score, tech_reasons, data1), data0_after)
          \<and> calculate_smart_money ta data1 = Inr ((sm_score, sm_signals), data2)
          \<and> r_rationale rep = tech_reasons @ sm_signals))"
proof -
  have tiers: "(recommendation c = StrongBuy \<longleftrightarrow> c \<ge> 70)"
    "(recommendation c = Neutral \<longleftrightarrow> 50 \<le> c \<and> c < 70)"
    "(recommendation c = Avoid \<longleftrightarrow> c < 50)"
    by (auto simp: recommendation_def)
  have zone: "buy_zone c (Num p) = Inr (if c \<ge> 60 then Some (Num (p * 0.98)) else None)"
    by (simp add: buy_zone_def)
  have page: "r_tier rep = recommendation (r_total_score rep)
      \<and> (r_buy_zone rep \<noteq> None \<longleftrightarrow> r_total_score rep \<ge> 60)
      \<and> (r_current_price rep = Num p \<longrightarrow>
            r_buy_zone rep = (if r_total_score rep \<ge> 60 then Some (Num (p * 0.98)) else None))
      \<and> (\<exists>tech_score tech_reasons data1 data0_after sm_score sm_signals data2.
            calculate_technical_strategy ta ws wl data0
              = Inr ((tech_score, tech_reasons, data1), data0_after)
          \<and> calculate_smart_money ta data1 = Inr ((sm_score, sm_signals), data2)
          \<and> r_rationale rep = tech_reasons @ sm_signals)"
    if run: "analyze ta polarity_of ws wl data0 news_list = Inr rep"
  proof -
    note bz = analyze_total(3) [OF run]
    have "r_buy_zone rep = (if r_total_score rep \<ge> 60 then Some (Num (p * 0.98)) else None)"
      if cp: "r_current_price rep = Num p"
    proof -
      have "buy_zone (r_total_score rep) (Num p)
          = Inr (if r_total_score rep \<ge> 60 then Some (Num (p * 0.98)) else None)"
        by (simp add: buy_zone_def)
      with bz cp show ?thesis
        by simp
    qed
    then show ?thesis
      using analyze_total(2) [OF run] buy_zone_Some [OF bz] analyze_total(4) [OF run]
      by blast
  qed
  show ?thesis
    using tiers zone page by blast
qed

theorem recommendation_and_entry_witness:
  "recommendation (521 / 6) = StrongBuy
   \<and> buy_zone (521 / 6) (Num 10) = Inr (Some (Num (10 * 0.98)))
   \<and> (case analyze ex_ta ex_polarity 20 50 ex_bars50 ex_news of
        Inl e \<Rightarrow> False
      | Inr rep \<Rightarrow> r_tier rep = StrongBuy \<and> r_buy_zone rep = Some (Num (10 * 0.98))
          \<and> r_rationale rep = [PriceAboveLongSMA, RSIOversold, MACDGoldenCross,
               BelowLowerBollinger, VolumeSpikeUp, OBVAboveEMA, MFIOversold])"
proof -
  have "case analyze ex_ta ex_polarity 20 50 ex_bars50 ex_news of
      Inl e \<Rightarrow> False
    | Inr rep \<Rightarrow> r_total_score rep = 521 / 6 \<and> r_current_price rep = Num 10
        \<and> r_rationale rep = [PriceAboveLongSMA, RSIOversold, MACDGoldenCross,
               BelowLowerBollinger, VolumeSpikeUp, OBVAboveEMA, MFIOversold]"
    by code_simp
  then obtain rep where run: "analyze ex_ta ex_polarity 20 50 ex_bars50 ex_news = Inr rep"
    and v: "r_total_score rep = 521 / 6" "r_current_price rep = Num 10"
      "r_rationale rep = [PriceAboveLongSMA, RSIOversold, MACDGoldenCross,
               BelowLowerBollinger, VolumeSpikeUp, OBVAboveEMA, MFIOversold]"
    by (elim sum_case_FalseE conjE) blast
  from recommendation_and_entry [of "521 / 6" 10 ex_ta ex_polarity 20 50 ex_bars50 ex_news rep]
  show ?thesis
    using run v by simp
qed

lemma a_score_analyze_one: "a_score (analyze_one polarity_of n) = polarity_of (dict_get n ''title'' [])"
  by (simp add: analyze_one_def Let_def)

lemma sentiment_loop_sum:
  "sentiment_loop polarity_of ns (a, xs) =
     (a + sum_list (map (\<lambda>n. polarity_of (dict_get n ''title'' [])) ns),
      xs @ map (analyze_one polarity_of) ns)"
  by (induction ns arbitrary: a xs) (simp_all add: a_score_analyze_one)

lemma sum_list_bounds:
  fixes f :: "'a \<Rightarrow> real"
  assumes "\<forall>x. - 1 \<le> f x \<and> f x \<le> 1"
  shows "- real (length xs) \<le> sum_list (map f xs) \<and> sum_list (map f xs) \<le> real (length xs)"
proof (induction xs)
  case Nil
  show ?case by simp
next
  case (Cons x xs)
  from assms have "- 1 \<le> f x" "f x \<le> 1"
    by simp_all
  with Cons show ?case
    by simp
qed

lemma analyze_sentiment_mean:
  assumes "news_list \<noteq> []"
  shows "fst (analyze_sentiment polarity_of news_list) =
     sum_list (map (\<lambda>n. polarity_of (dict_get n ''title'' [])) (take 5 news_list))
       / real (min 5 (length news_list)) * 100"
  using assms by (simp add: analyze_sentiment_def sentiment_loop_sum Let_def min.commute)


text \<open>
  C7. On an empty news list the sentiment is exactly 0 with no analysed headline; on a
  non-empty list it is the mean of the polarities of the first at most five headlines,
  times 100; with polarities in [-1,1] the result is in [-100,100].
\<close>

theorem sentiment_mean:
  "analyze_sentiment polarity_of [] = (0, [])
   \<and> (news_list \<noteq> [] \<longrightarrow>
        fst (analyze_sentiment polarity_of news_list) =
          sum_list (map (\<lambda>n. polarity_of (dict_get n ''title'' [])) (take 5 news_list))
            / real (min 5 (length news_list)) * 100
        \<and> snd (analyze_sentiment polarity_of news_list)
            = map (analyze_one polarity_of) (take 5 news_list))
   \<and> ((\<forall>t. - 1 \<le> polarity_of t \<and> polarity_of t \<le> 1) \<longrightarrow>
        - 100 \<le> fst (analyze_sentiment polarity_of news_list)
        \<and> fst (analyze_sentiment polarity_of news_list) \<le> 100)"
proof (intro conjI impI)
  show "analyze_sentiment polarity_of [] = (0, [])"
    by (simp add: analyze_sentiment_def)
  show "fst (analyze_sentiment polarity_of news_list) =
          sum_list (map (\<lambda>n. polarity_of (dict_get n ''title'' [])) (take 5 news_list))
            / real (min 5 (length news_list)) * 100" if "news_list \<noteq> []"
    using that by (rule analyze_sentiment_mean)
  show "snd (analyze_sentiment polarity_of news_list)
            = map (analyze_one polarity_of) (take 5 news_list)" if "news_list \<noteq> []"
    using that by (simp add: analyze_sentiment_def sentiment_loop_sum Let_def)
  assume pol: "\<forall>t. - 1 \<le> polarity_of t \<and> polarity_of t \<le> 1"
  show "- 100 \<le> fst (analyze_sentiment polarity_of news_list)"
    and "fst (analyze_sentiment polarity_of news_list) \<le> 100"
  proof -
    let ?ns = "take 5 news_list"
    let ?s = "sum_list (map (\<lambda>n. polarity_of (dict_get n ''title'' [])) ?ns)"
    let ?k = "real (min 5 (length news_list))"
    have k: "real (length ?ns) = ?k"
      by (simp add: min.commute)
    from pol have "\<forall>n. - 1 \<le> polarity_of (dict_get n ''title'' [])
        \<and> polarity_of (dict_get n ''title'' []) \<le> 1"
      by simp
    from sum_list_bounds [OF this, of ?ns] have b: "- ?k \<le> ?s" "?s \<le> ?k"
      by (simp_all add: min.commute)
    have "- 100 \<le> fst (analyze_sentiment polarity_of news_list)
        \<and> fst (analyze_sentiment polarity_of news_list) \<le> 100"
    proof (cases "news_list = []")
      case True
      then show ?thesis
        by (simp add: analyze_sentiment_def)
    next
      case False
      then have pos: "0 < ?k"
        by simp
      from b pos have q: "- 1 \<le> ?s / ?k" "?s / ?k \<le> 1"
        by (simp_all add: field_simps)
      have scale: "- 100 \<le> x * 100 \<and> x * 100 \<le> 100" if "- 1 \<le> x" "x \<le> 1" for x :: real
        using that by linarith
      have r: "- 100 \<le> ?s / ?k * 100 \<and> ?s / ?k * 100 \<le> 100"
        using q by (rule scale)
      show ?thesis
        unfolding analyze_sentiment_mean [OF False, of polarity_of] by (rule r)
    qed
    then show "- 100 \<le> fst (analyze_sentiment polarity_of news_list)"
      and "fst (analyze_sentiment polarity_of news_list) \<le> 100"
      by simp_all
  qed
qed

theorem sentiment_mean_witness:
  "(\<forall>t. - 1 \<le> ex_polarity t \<and> ex_polarity t \<le> 1)
   \<and> map (\<lambda>n. ex_polarity (dict_get n ''title'' [])) (take 5 ex_news) = [0.4, - 0.2, 0]
   \<and> fst (analyze_sentiment ex_polarity ex_news) = (0.4 - 0.2 + 0) / 3 * 100
   \<and> 6.66 < fst (analyze_sentiment ex_polarity ex_news)
   \<and> fst (analyze_sentiment ex_polarity ex_news) < 6.67
   \<and> - 100 \<le> fst (analyze_sentiment ex_polarity ex_news)
   \<and> fst (analyze_sentiment ex_polarity ex_news) \<le> 100"
proof -
  have pol: "\<forall>t. - 1 \<le> ex_polarity t \<and> ex_polarity t \<le> 1"
    by (simp add: ex_polarity_def)
  have ne: "ex_news \<noteq> []"
    by (simp add: ex_news_def)
  have m: "map (\<lambda>n. ex_polarity (dict_get n ''title'' [])) (take 5 ex_news) = [0.4, - 0.2, 0]"
    by (simp add: ex_news_def ex_polarity_def dict_get_def)
  have len: "length ex_news = 3"
    by (simp add: ex_news_def)
  from sentiment_mean [of ex_polarity ex_news] ne pol
  have e: "fst (analyze_sentiment ex_polarity ex_news) =
      sum_list (map (\<lambda>n. ex_polarity (dict_get n ''title'' [])) (take 5 ex_news))
        / real (min 5 (length ex_news)) * 100"
    and b: "- 100 \<le> fst (analyze_sentiment ex_polarity ex_news)"
      "fst (analyze_sentiment ex_polarity ex_news) \<le> 100"
    by blast+
  have v: "fst (analyze_sentiment ex_polarity ex_news) = 20 / 3"
    unfolding e m len by simp
  show ?thesis
    using pol m b by (simp add: v)
qed

lemma cell_max_Num [simp]: "cell_max (Num a) (Num b) = Num (max a b)"
  by (simp add: cell_max_def max_def)

lemma cell_min_Num [simp]: "cell_min (Num a) (Num b) = Num (min a b)"
  by (simp add: cell_min_def min_def)

lemma fold_cell_max_Num: "fold cell_max (map Num xs) (Num a) = Num (fold max xs a)"
  by (induction xs arbitrary: a) simp_all

lemma fold_cell_min_Num: "fold cell_min (map Num xs) (Num a) = Num (fold min xs a)"
  by (induction xs arbitrary: a) simp_all

lemma filter_notna_Num [simp]: "filter notna (map Num xs) = map Num xs"
  by (induction xs) simp_all

lemma series_max_Num:
  assumes "xs \<noteq> []"
  shows "series_max (map Num xs) = Num (Max (set xs))"
proof -
  from assms obtain y ys where xs: "xs = y # ys"
    by (cases xs) auto
  show ?thesis
    by (simp add: series_max_def xs fold_cell_max_Num Max.set_eq_fold del: set_simps)
qed

lemma series_min_Num:
  assumes "xs \<noteq> []"
  shows "series_min (map Num xs) = Num (Min (set xs))"
proof -
  from assms obtain y ys where xs: "xs = y # ys"
    by (cases xs) auto
  show ?thesis
    by (simp add: series_min_def xs fold_cell_min_Num Min.set_eq_fold del: set_simps)
qed

lemma tail_n_map: "tail_n n (map f xs) = map f (tail_n n xs)"
  by (simp add: tail_n_def drop_map)

lemma tail_n_window: "tail_n n xs = drop (length xs - min n (length xs)) xs"
  by (simp add: tail_n_def min_def)

lemma tail_n_nonempty: "xs \<noteq> [] \<Longrightarrow> 0 < n \<Longrightarrow> tail_n n xs \<noteq> []"
  by (cases xs) (auto simp: tail_n_def)


text \<open>
  C8. For bars with numeric highs and lows, at least one of them, the resistance is the
  greatest high and the support the least low of the last min(20, length) bars; with at
  most 20 bars these are the extremes of all the bars.
\<close>

theorem levels_window:
  assumes high: "df_get df ''High'' = Inr (map Num hs)"
    and low: "df_get df ''Low'' = Inr (map Num ls)"
    and "hs \<noteq> []" and "ls \<noteq> []"
  shows "recent_high df = Inr (Num (Max (set (drop (length hs - min 20 (length hs)) hs))))
    \<and> recent_low df = Inr (Num (Min (set (drop (length ls - min 20 (length ls)) ls))))
    \<and> (length hs \<le> 20 \<longrightarrow> recent_high df = Inr (Num (Max (set hs))))
    \<and> (length ls \<le> 20 \<longrightarrow> recent_low df = Inr (Num (Min (set ls))))"
proof -
  have h: "recent_high df = Inr (Num (Max (set (tail_n 20 hs))))"
    using tail_n_nonempty [OF \<open>hs \<noteq> []\<close>, of 20]
    by (simp add: recent_high_def high tail_n_map series_max_Num)
  have l: "recent_low df = Inr (Num (Min (set (tail_n 20 ls))))"
    using tail_n_nonempty [OF \<open>ls \<noteq> []\<close>, of 20]
    by (simp add: recent_low_def low tail_n_map series_min_Num)
  have "tail_n 20 hs = hs" if "length hs \<le> 20"
    using that by (simp add: tail_n_def)
  moreover have "tail_n 20 ls = ls" if "length ls \<le> 20"
    using that by (simp add: tail_n_def)
  ultimately show ?thesis
    using h l by (simp add: tail_n_window [symmetric])
qed

theorem levels_window_witness:
  "df_get ex_bars5 ''High'' = Inr (map Num [10, 12, 9, 15, 11])
   \<and> df_get ex_bars5 ''Low'' = Inr (map Num [8, 9, 7, 10, 9])
   \<and> recent_high ex_bars5 = Inr (Num 15)
   \<and> recent_low ex_bars5 = Inr (Num 7)"
proof -
  have h: "df_get ex_bars5 ''High'' = Inr (map Num [10, 12, 9, 15, 11])"
    and l: "df_get ex_bars5 ''Low'' = Inr (map Num [8, 9, 7, 10, 9])"
    by (simp_all add: ex_bars5_def df_get_def)
  from levels_window [OF h l]
  show ?thesis
    using h l by simp
qed

end
